theory Spec2Isabelle
  imports Complex_Main "HOL-Library.Multiset"
begin

section \<open>JavaScript values used by the label service\<close>

text \<open>
  The service (\<^verbatim>\<open>LabelService\<close> in \<^verbatim>\<open>src/src/index.ts\<close>) converts between three
  kinds of values: strings (event ids in requests and responses), \<^verbatim>\<open>BigInt\<close>s (ids and
  timestamps in the store, unbounded integers: \<open>int\<close>) and Numbers (IEEE doubles, used for
  \<^verbatim>\<open>Math.min\<close>, \<^verbatim>\<open>Math.max\<close> and the sort comparators). Every Number the service
  builds from a BigInt is integral, so a finite Number is modelled by the integer it denotes.
  Strings are byte strings; white space outside ASCII is not modelled.
\<close>

datatype AppError = AppError string nat

text \<open>What a \<^verbatim>\<open>try\<close> block of the service can throw.\<close>

datatype exn =
    App AppError
  | PrismaClientKnownRequestError string
  | PrismaClientValidationError
  | SyntaxError
  | RangeError

datatype number = Num int | Infinity | NegInfinity | NaN

subsection \<open>\<^verbatim>\<open>BigInt(string)\<close>\<close>

definition isWhiteSpace :: "char \<Rightarrow> bool" where
  "isWhiteSpace c = (c \<in> set [CHR 0x09, CHR 0x0A, CHR 0x0B, CHR 0x0C, CHR 0x0D, CHR 0x20])"

definition trimString :: "string \<Rightarrow> string" where
  "trimString s = rev (dropWhile isWhiteSpace (rev (dropWhile isWhiteSpace s)))"

definition digitValue :: "char \<Rightarrow> nat option" where
  "digitValue c =
     (let n = of_char c :: nat in
      if 48 \<le> n \<and> n \<le> 57 then Some (n - 48)
      else if 97 \<le> n \<and> n \<le> 102 then Some (n - 87)
      else if 65 \<le> n \<and> n \<le> 70 then Some (n - 55)
      else None)"

text \<open>The digits of a literal in the given radix, most significant first.\<close>

fun digitsValue :: "nat \<Rightarrow> nat \<Rightarrow> string \<Rightarrow> nat option" where
  "digitsValue radix acc [] = Some acc"
| "digitsValue radix acc (c # cs) =
     (case digitValue c of
        None \<Rightarrow> None
      | Some d \<Rightarrow> if d < radix then digitsValue radix (acc * radix + d) cs else None)"

definition literalValue :: "nat \<Rightarrow> string \<Rightarrow> int option" where
  "literalValue radix ds = (if ds = [] then None else map_option int (digitsValue radix 0 ds))"

text \<open>
  \<^verbatim>\<open>BigInt(s)\<close> for a string (StringToBigInt of ECMAScript): white space is trimmed, the
  empty string is \<open>0\<close>, a decimal literal may carry a sign, a literal with a radix prefix
  may not; anything else throws a SyntaxError (\<open>None\<close>).
\<close>

definition StringToBigInt :: "string \<Rightarrow> int option" where
  "StringToBigInt s =
     (case trimString s of
        [] \<Rightarrow> Some 0
      | c # cs \<Rightarrow>
          if c = CHR ''-'' then map_option uminus (literalValue 10 cs)
          else if c = CHR ''+'' then literalValue 10 cs
          else if c = CHR ''0'' \<and> cs \<noteq> [] \<and> hd cs \<in> set ''xX'' then literalValue 16 (tl cs)
          else if c = CHR ''0'' \<and> cs \<noteq> [] \<and> hd cs \<in> set ''oO'' then literalValue 8 (tl cs)
          else if c = CHR ''0'' \<and> cs \<noteq> [] \<and> hd cs \<in> set ''bB'' then literalValue 2 (tl cs)
          else literalValue 10 (c # cs))"

subsection \<open>\<^verbatim>\<open>BigInt.prototype.toString\<close>\<close>

definition digitChar :: "nat \<Rightarrow> char" where
  "digitChar d = ''0123456789'' ! d"

fun natToString :: "nat \<Rightarrow> string" where
  "natToString n = (if n < 10 then [digitChar n] else natToString (n div 10) @ [digitChar (n mod 10)])"

declare natToString.simps [simp del]

definition BigInt_toString :: "int \<Rightarrow> string" where
  "BigInt_toString n = (if n < 0 then CHR ''-'' # natToString (nat (- n)) else natToString (nat n))"

subsection \<open>\<^verbatim>\<open>Number(bigint)\<close>, \<^verbatim>\<open>BigInt(number)\<close>, \<^verbatim>\<open>Math.min\<close> and \<^verbatim>\<open>Math.max\<close>\<close>

fun bitLength :: "nat \<Rightarrow> nat" where
  "bitLength n = (if n = 0 then 0 else Suc (bitLength (n div 2)))"

declare bitLength.simps [simp del]

text \<open>
  \<^verbatim>\<open>Number(n)\<close> for a BigInt \<open>n\<close>: the nearest double, ties to even. A double has 53
  significant bits, so an integer of at most 53 bits is kept and a longer one loses its low
  bits. The store's BigInt columns are 64-bit, far below the magnitude (\<open>2 ^ 1024\<close>) from
  which the conversion gives an infinity; that case is not modelled.
\<close>

definition Number_of_BigInt :: "int \<Rightarrow> int" where
  "Number_of_BigInt n =
     (let a = nat \<bar>n\<bar>; len = bitLength a in
      if len \<le> 53 then n
      else
        let m = 2 ^ (len - 53);
            q = a div m;
            r = a mod m;
            q' = (if m < 2 * r \<or> (2 * r = m \<and> odd q) then q + 1 else q)
        in sgn n * int (q' * m))"

text \<open>
  The time values a \<^verbatim>\<open>Date\<close> can hold: at most \<open>8.64e15\<close> milliseconds from the epoch.
  A date set to any other time is invalid: its \<^verbatim>\<open>getTime()\<close> is \<^verbatim>\<open>NaN\<close> and its
  \<^verbatim>\<open>toISOString()\<close> throws a RangeError.
\<close>

definition valid_time :: "int \<Rightarrow> bool" where
  "valid_time t = (\<bar>t\<bar> \<le> 8640000000000000)"

text \<open>\<^verbatim>\<open>BigInt(x)\<close> for a Number: a RangeError unless \<open>x\<close> is an integer.\<close>

fun BigInt_of_number :: "number \<Rightarrow> exn + int" where
  "BigInt_of_number (Num n) = Inr n"
| "BigInt_of_number Infinity = Inl RangeError"
| "BigInt_of_number NegInfinity = Inl RangeError"
| "BigInt_of_number NaN = Inl RangeError"

text \<open>\<^verbatim>\<open>Math.min(...xs)\<close> and \<^verbatim>\<open>Math.max(...xs)\<close>: with no argument, the infinities.\<close>

fun Math_min :: "int list \<Rightarrow> number" where
  "Math_min [] = Infinity"
| "Math_min (x # xs) = Num (fold min xs x)"

fun Math_max :: "int list \<Rightarrow> number" where
  "Math_max [] = NegInfinity"
| "Math_max (x # xs) = Num (fold max xs x)"

section \<open>The store\<close>

text \<open>
  The tables the service reads and writes through Prisma. \<^verbatim>\<open>schema.prisma\<close> is not
  among the sources; the columns are the ones the service names. A row of a type-specific
  table (song, ad, ...) is the object of its fields; the table is joined into the label's
  row, \<open>None\<close> when the label has no such row.
\<close>

type_synonym Date = int \<comment> \<open>milliseconds since the epoch (\<^verbatim>\<open>getTime()\<close>) of a valid date\<close>

type_synonym fields = "(string \<times> string) list"

datatype LabelType = Song | Ad | Error | Program | Movie | Promo | Sports

datatype SortOrder = Asc | Desc

record Event =
  ev_id :: int
  ev_device_id :: string
  ev_timestamp :: int
  ev_type :: string
  ev_image_path :: "string option"

record Device =
  device_id :: string

text \<open>The seven optional type-specific objects, shared by requests, rows and responses.\<close>

record SubRecords =
  song :: "fields option"
  ad :: "fields option"
  error :: "fields option"
  program :: "fields option"
  movie :: "fields option"
  promo :: "fields option"
  sports :: "fields option"

record LabelRow = SubRecords +
  lb_id :: int
  lb_label_type :: LabelType
  lb_created_by :: string
  lb_created_at :: Date
  lb_start_time :: int
  lb_end_time :: int
  lb_notes :: "string option"

record LabelEvent =
  le_label_id :: int
  le_event_id :: int

record DB =
  events :: "Event list"
  labels :: "LabelRow list"
  label_events :: "LabelEvent list"
  devices :: "Device list"
  label_seq :: int \<comment> \<open>the last value of the autoincrement sequence of label ids\<close>

text \<open>
  The uniqueness constraint of the association table is declared in the schema: it is a
  parameter of the store, telling whether a new row collides with the rows present.
\<close>

type_synonym unique_constraint = "LabelEvent list \<Rightarrow> LabelEvent \<Rightarrow> bool"

text \<open>\<^verbatim>\<open>include: { events: { include: { event: ... } } }\<close>: a label's association rows, each
  joined with its event, in the order of the association table.\<close>

definition included_events :: "DB \<Rightarrow> int \<Rightarrow> (LabelEvent \<times> Event) list" where
  "included_events db lid =
     concat (map (\<lambda>le. map (\<lambda>e. (le, e)) (filter (\<lambda>e. ev_id e = le_event_id le) (events db)))
                 (filter (\<lambda>le. le_label_id le = lid) (label_events db)))"

text \<open>\<^verbatim>\<open>prisma.event.findMany({ where: { id: { in: eventIds } } })\<close>\<close>

definition event_findMany_in :: "DB \<Rightarrow> int list \<Rightarrow> Event list" where
  "event_findMany_in db eventIds = filter (\<lambda>e. ev_id e \<in> set eventIds) (events db)"

text \<open>
  The nested \<^verbatim>\<open>create\<close> of association rows, each connecting an event: a missing event
  is the error P2025, a collision with the uniqueness constraint the error P2002.
\<close>

fun create_label_events ::
  "unique_constraint \<Rightarrow> Event list \<Rightarrow> LabelEvent list \<Rightarrow> int \<Rightarrow> int list \<Rightarrow> exn + LabelEvent list" where
  "create_label_events uq evs rows lid [] = Inr rows"
| "create_label_events uq evs rows lid (eid # eids) =
     (let row = \<lparr>le_label_id = lid, le_event_id = eid\<rparr> in
      if eid \<notin> ev_id ` set evs then Inl (PrismaClientKnownRequestError ''P2025'')
      else if uq rows row then Inl (PrismaClientKnownRequestError ''P2002'')
      else create_label_events uq evs (rows @ [row]) lid eids)"

record LabelCreateInput = SubRecords +
  lc_label_type :: LabelType
  lc_created_by :: string
  lc_start_time :: int
  lc_end_time :: int
  lc_notes :: "string option"
  lc_events_create :: "int list"

text \<open>
  \<^verbatim>\<open>prisma.label.create\<close>: the row takes the next id of the sequence and the creation
  time \<open>now\<close>; the association rows follow. The write is one transaction: on an error no
  row stays, but the sequence has advanced.
\<close>

definition label_create ::
  "unique_constraint \<Rightarrow> Date \<Rightarrow> DB \<Rightarrow> LabelCreateInput \<Rightarrow> (exn + LabelRow) \<times> DB" where
  "label_create uq now db ld =
     (let lid = label_seq db + 1;
          row = \<lparr>song = song ld, ad = ad ld, error = error ld, program = program ld,
                 movie = movie ld, promo = promo ld, sports = sports ld,
                 lb_id = lid, lb_label_type = lc_label_type ld, lb_created_by = lc_created_by ld,
                 lb_created_at = now, lb_start_time = lc_start_time ld,
                 lb_end_time = lc_end_time ld, lb_notes = lc_notes ld\<rparr>
      in case create_label_events uq (events db) (label_events db) lid (lc_events_create ld) of
           Inl e \<Rightarrow> (Inl e, db\<lparr>label_seq := lid\<rparr>)
         | Inr rows \<Rightarrow>
             (Inr row, db\<lparr>labels := labels db @ [row], label_events := rows, label_seq := lid\<rparr>))"

section \<open>\<^verbatim>\<open>LabelService.createLabel\<close>\<close>

record CreateLabel = SubRecords +
  c_event_ids :: "string list"
  c_label_type :: LabelType
  c_notes :: "string option"
  c_created_by :: string

text \<open>The response object of a label (\<^verbatim>\<open>Label\<close> of \<^verbatim>\<open>label.type\<close>).\<close>

record Label = SubRecords +
  label_id :: int
  event_ids :: "string list"
  label_type :: LabelType
  created_by :: string
  created_at :: Date
  start_time :: string
  end_time :: string
  notes' :: "string option"
  image_paths :: "string option list"

text \<open>
  \<^verbatim>\<open>ids.map(id => { const parsed = BigInt(id); if (isNaN(Number(parsed))) throw ...; return parsed })\<close>:
  \<^verbatim>\<open>BigInt\<close> throws a SyntaxError on the first string that is no integer literal; the
  Number of a BigInt is never NaN, so the second throw is dead.
\<close>

fun parse_event_ids :: "string list \<Rightarrow> exn + int list" where
  "parse_event_ids [] = Inr []"
| "parse_event_ids (s # ss) =
     (case StringToBigInt s of
        None \<Rightarrow> Inl SyntaxError
      | Some parsed \<Rightarrow>
          (case parse_event_ids ss of Inl e \<Rightarrow> Inl e | Inr ps \<Rightarrow> Inr (parsed # ps)))"

text \<open>\<^verbatim>\<open>xs.sort((a, b) => Number(a.timestamp) - Number(b.timestamp))\<close>: a stable sort on
  the Number of the timestamp.\<close>

definition sort_by_timestamp :: "('a \<Rightarrow> int) \<Rightarrow> 'a list \<Rightarrow> 'a list" where
  "sort_by_timestamp ts xs = sort_key (\<lambda>x. Number_of_BigInt (ts x)) xs"

text \<open>The \<^verbatim>\<open>if\<close> chain that attaches the object named by the label type, when it is given.\<close>

definition select_sub :: "LabelType \<Rightarrow> 'a SubRecords_scheme \<Rightarrow> SubRecords" where
  "select_sub t d =
     (let none = \<lparr>song = None, ad = None, error = None, program = None, movie = None,
                  promo = None, sports = None\<rparr> in
      if t = Song \<and> song d \<noteq> None then none\<lparr>song := song d\<rparr>
      else if t = Ad \<and> ad d \<noteq> None then none\<lparr>ad := ad d\<rparr>
      else if t = Error \<and> error d \<noteq> None then none\<lparr>error := error d\<rparr>
      else if t = Program \<and> program d \<noteq> None then none\<lparr>program := program d\<rparr>
      else if t = Movie \<and> movie d \<noteq> None then none\<lparr>movie := movie d\<rparr>
      else if t = Promo \<and> promo d \<noteq> None then none\<lparr>promo := promo d\<rparr>
      else if t = Sports \<and> sports d \<noteq> None then none\<lparr>sports := sports d\<rparr>
      else none)"

text \<open>Lines 179 to 229: everything before the write. The result is the argument of
  \<^verbatim>\<open>prisma.label.create\<close>.\<close>

definition createLabel_data :: "DB \<Rightarrow> CreateLabel \<Rightarrow> exn + LabelCreateInput" where
  "createLabel_data db data =
     (case parse_event_ids (c_event_ids data) of
        Inl e \<Rightarrow> Inl e
      | Inr eventIds \<Rightarrow>
          let evs = event_findMany_in db eventIds in
          if length evs \<noteq> length eventIds
          then Inl (App (AppError ''One or more events not found'' 404))
          else
            let timestamps = map (\<lambda>e. Number_of_BigInt (ev_timestamp e)) evs in
            case BigInt_of_number (Math_min timestamps) of
              Inl e \<Rightarrow> Inl e
            | Inr start_time' \<Rightarrow>
                (case BigInt_of_number (Math_max timestamps) of
                   Inl e \<Rightarrow> Inl e
                 | Inr end_time' \<Rightarrow>
                     let s = select_sub (c_label_type data) data in
                     Inr \<lparr>song = song s, ad = ad s, error = error s, program = program s,
                          movie = movie s, promo = promo s, sports = sports s,
                          lc_label_type = c_label_type data, lc_created_by = c_created_by data,
                          lc_start_time = start_time', lc_end_time = end_time',
                          lc_notes = c_notes data, lc_events_create = eventIds\<rparr>))"

text \<open>
  The response. \<^verbatim>\<open>label.events.sort(...)\<close> sorts the array in place before the object
  is built, so \<^verbatim>\<open>event_ids\<close> is read from the sorted array too.
\<close>

definition label_response :: "LabelRow \<Rightarrow> (LabelEvent \<times> Event) list \<Rightarrow> string option list \<Rightarrow> Label" where
  "label_response row les paths =
     \<lparr>song = song row, ad = ad row, error = error row, program = program row,
      movie = movie row, promo = promo row, sports = sports row,
      label_id = lb_id row,
      event_ids = map (\<lambda>(le, e). BigInt_toString (le_event_id le)) les,
      label_type = lb_label_type row,
      created_by = lb_created_by row,
      created_at = lb_created_at row,
      start_time = BigInt_toString (lb_start_time row),
      end_time = BigInt_toString (lb_end_time row),
      notes' = lb_notes row,
      image_paths = paths\<rparr>"

definition createLabel_try ::
  "unique_constraint \<Rightarrow> Date \<Rightarrow> DB \<Rightarrow> CreateLabel \<Rightarrow> (exn + Label) \<times> DB" where
  "createLabel_try uq now db data =
     (case createLabel_data db data of
        Inl e \<Rightarrow> (Inl e, db)
      | Inr labelData \<Rightarrow>
          (case label_create uq now db labelData of
             (Inl e, db') \<Rightarrow> (Inl e, db')
           | (Inr row, db') \<Rightarrow>
               let sorted = sort_by_timestamp (\<lambda>(le, e). ev_timestamp e) (included_events db' (lb_id row));
                   sortedImagePaths = map (\<lambda>(le, e). ev_image_path e) sorted
               in (Inr (label_response row sorted sortedImagePaths), db')))"

text \<open>The \<^verbatim>\<open>catch\<close> block of \<^verbatim>\<open>createLabel\<close>.\<close>

fun createLabel_catch :: "exn \<Rightarrow> AppError" where
  "createLabel_catch (PrismaClientKnownRequestError c) =
     (if c = ''P2002'' then AppError ''Label already exists for one or more events'' 400
      else AppError ''Failed to create label'' 500)"
| "createLabel_catch e = AppError ''Failed to create label'' 500"

definition createLabel ::
  "unique_constraint \<Rightarrow> Date \<Rightarrow> DB \<Rightarrow> CreateLabel \<Rightarrow> (AppError + Label) \<times> DB" where
  "createLabel uq now db data =
     (case createLabel_try uq now db data of
        (Inl e, db') \<Rightarrow> (Inl (createLabel_catch e), db')
      | (Inr label, db') \<Rightarrow> (Inr label, db'))"

section \<open>\<^verbatim>\<open>LabelService.updateLabel\<close>\<close>

text \<open>A field of the request that may be left out is an option: \<open>None\<close> is
  \<^verbatim>\<open>undefined\<close>. The notes may also be given as \<^verbatim>\<open>null\<close>: \<open>Some None\<close>.\<close>

record UpdateLabel = SubRecords +
  u_event_ids :: "string list option"
  u_label_type :: "LabelType option"
  u_notes :: "string option option"

text \<open>The argument of \<^verbatim>\<open>prisma.label.update\<close>: a type-specific object that is present is
  an \<^verbatim>\<open>upsert\<close> whose \<^verbatim>\<open>create\<close> and \<^verbatim>\<open>update\<close> are that object; \<open>lu_events\<close> is
  \<^verbatim>\<open>{ deleteMany: {}, create: [...] }\<close>.\<close>

record LabelUpdateInput = SubRecords +
  lu_label_type :: "LabelType option"
  lu_notes :: "string option option"
  lu_events :: "int list option"

text \<open>The named fields of an object that are defined, in the order they are named.\<close>

definition pick_fields :: "string list \<Rightarrow> fields \<Rightarrow> fields" where
  "pick_fields ks obj = concat (map (\<lambda>k. case map_of obj k of None \<Rightarrow> [] | Some v \<Rightarrow> [(k, v)]) ks)"

text \<open>An update of a row sets the fields given and keeps the others.\<close>

definition update_fields :: "fields \<Rightarrow> fields \<Rightarrow> fields" where
  "update_fields row obj = obj @ filter (\<lambda>(k, v). k \<notin> fst ` set obj) row"

fun upsert :: "fields option \<Rightarrow> fields option \<Rightarrow> fields option" where
  "upsert old None = old"
| "upsert None (Some obj) = Some obj"
| "upsert (Some row) (Some obj) = Some (update_fields row obj)"

text \<open>Lines 479 to 508: the \<^verbatim>\<open>if\<close> chain on \<^verbatim>\<open>data.label_type\<close> and the object it names.\<close>

definition updateLabel_upsert :: "UpdateLabel \<Rightarrow> SubRecords" where
  "updateLabel_upsert data =
     (let none = \<lparr>song = None, ad = None, error = None, program = None, movie = None,
                  promo = None, sports = None\<rparr>
      in
      if u_label_type data = Some Song \<and> song data \<noteq> None then none\<lparr>song := song data\<rparr>
      else if u_label_type data = Some Ad \<and> ad data \<noteq> None then none\<lparr>ad := ad data\<rparr>
      else if u_label_type data = Some Error \<and> error data \<noteq> None then none\<lparr>error := error data\<rparr>
      else if u_label_type data = Some Program \<and> program data \<noteq> None
        then none\<lparr>program := program data\<rparr>
      else if u_label_type data = Some Movie \<and> movie data \<noteq> None then none\<lparr>movie := movie data\<rparr>
      else if u_label_type data = Some Promo \<and> promo data \<noteq> None then none\<lparr>promo := promo data\<rparr>
      else if u_label_type data = Some Sports \<and> sports data \<noteq> None
        then none\<lparr>sports :=
               map_option (pick_fields [''program_title'', ''sport_type'', ''program_category'', ''language''])
                 (sports data)\<rparr>
      else none)"

text \<open>The row a unique \<^verbatim>\<open>where\<close> finds is the one that is written.\<close>

fun replace_first :: "('a \<Rightarrow> bool) \<Rightarrow> 'a \<Rightarrow> 'a list \<Rightarrow> 'a list" where
  "replace_first P y [] = []"
| "replace_first P y (x # xs) = (if P x then y # xs else x # replace_first P y xs)"

text \<open>
  \<^verbatim>\<open>prisma.label.update\<close>: a missing label is the error P2025. The association rows of
  the label are deleted and the new ones created when \<open>lu_events\<close> is given. One
  transaction: on an error the store is unchanged.
\<close>

definition label_update ::
  "unique_constraint \<Rightarrow> DB \<Rightarrow> int \<Rightarrow> LabelUpdateInput \<Rightarrow> (exn + LabelRow) \<times> DB" where
  "label_update uq db lid u =
     (case find (\<lambda>l. lb_id l = lid) (labels db) of
        None \<Rightarrow> (Inl (PrismaClientKnownRequestError ''P2025''), db)
      | Some row \<Rightarrow>
          let row' = row\<lparr>lb_label_type := (case lu_label_type u of None \<Rightarrow> lb_label_type row | Some t \<Rightarrow> t),
                         lb_notes := (case lu_notes u of None \<Rightarrow> lb_notes row | Some n \<Rightarrow> n),
                         song := upsert (song row) (song u),
                         ad := upsert (ad row) (ad u),
                         error := upsert (error row) (error u),
                         program := upsert (program row) (program u),
                         movie := upsert (movie row) (movie u),
                         promo := upsert (promo row) (promo u),
                         sports := upsert (sports row) (sports u)\<rparr>;
              labels' = replace_first (\<lambda>l. lb_id l = lid) row' (labels db)
          in case lu_events u of
               None \<Rightarrow> (Inr row', db\<lparr>labels := labels'\<rparr>)
             | Some eventIds \<Rightarrow>
                 (case create_label_events uq (events db)
                         (filter (\<lambda>le. le_label_id le \<noteq> lid) (label_events db)) lid eventIds of
                    Inl e \<Rightarrow> (Inl e, db)
                  | Inr rows \<Rightarrow> (Inr row', db\<lparr>labels := labels', label_events := rows\<rparr>)))"

text \<open>Lines 439 to 508: the argument of the update, and the image paths of the events
  found, sorted by timestamp (empty when no event ids are given).\<close>

definition updateLabel_data :: "DB \<Rightarrow> UpdateLabel \<Rightarrow> exn + LabelUpdateInput \<times> string option list" where
  "updateLabel_data db data =
     (let s = updateLabel_upsert data;
          updateData = \<lparr>song = song s, ad = ad s, error = error s, program = program s,
                        movie = movie s, promo = promo s, sports = sports s,
                        lu_label_type = u_label_type data, lu_notes = u_notes data,
                        lu_events = None\<rparr>
      in case u_event_ids data of
           None \<Rightarrow> Inr (updateData, [])
         | Some ids \<Rightarrow>
             (case parse_event_ids ids of
                Inl e \<Rightarrow> Inl e
              | Inr eventIds \<Rightarrow>
                  let evs = event_findMany_in db eventIds in
                  if length evs \<noteq> length eventIds
                  then Inl (App (AppError ''One or more events not found'' 404))
                  else
                    let sortedEvents = sort_by_timestamp ev_timestamp evs in
                    Inr (updateData\<lparr>lu_events := Some eventIds\<rparr>, map ev_image_path sortedEvents)))"

definition updateLabel_try ::
  "unique_constraint \<Rightarrow> DB \<Rightarrow> int \<Rightarrow> UpdateLabel \<Rightarrow> (exn + Label) \<times> DB" where
  "updateLabel_try uq db lid data =
     (case updateLabel_data db data of
        Inl e \<Rightarrow> (Inl e, db)
      | Inr (updateData, image_paths') \<Rightarrow>
          (case label_update uq db lid updateData of
             (Inl e, db') \<Rightarrow> (Inl e, db')
           | (Inr row, db') \<Rightarrow>
               let les = included_events db' (lb_id row) in
               if u_event_ids data \<noteq> None
               then (Inr (label_response row les image_paths'), db')
               else
                 let sorted = sort_by_timestamp (\<lambda>(le, e). ev_timestamp e) les in
                 (Inr (label_response row sorted (map (\<lambda>(le, e). ev_image_path e) sorted)), db')))"

fun updateLabel_catch :: "exn \<Rightarrow> AppError" where
  "updateLabel_catch (PrismaClientKnownRequestError c) =
     (if c = ''P2025'' then AppError ''Label not found'' 404
      else AppError ''Failed to update label'' 500)"
| "updateLabel_catch e = AppError ''Failed to update label'' 500"

definition updateLabel ::
  "unique_constraint \<Rightarrow> DB \<Rightarrow> int \<Rightarrow> UpdateLabel \<Rightarrow> (AppError + Label) \<times> DB" where
  "updateLabel uq db lid data =
     (case updateLabel_try uq db lid data of
        (Inl e, db') \<Rightarrow> (Inl (updateLabel_catch e), db')
      | (Inr label, db') \<Rightarrow> (Inr label, db'))"

section \<open>\<^verbatim>\<open>LabelService.deleteLabel\<close> and \<^verbatim>\<open>deleteLabelsBulk\<close>\<close>

text \<open>
  Modelled from the spec: the referential action of the association table on the deletion
  of a label, which \<^verbatim>\<open>schema.prisma\<close> (not among the sources) declares. Labels are removed
  by id without an error of the store, so the association rows of a deleted label go with it.
\<close>

definition delete_labels :: "DB \<Rightarrow> (int \<Rightarrow> bool) \<Rightarrow> DB" where
  "delete_labels db doomed =
     db\<lparr>labels := filter (\<lambda>l. \<not> doomed (lb_id l)) (labels db),
        label_events := filter (\<lambda>le. \<not> doomed (le_label_id le)) (label_events db)\<rparr>"

text \<open>\<^verbatim>\<open>prisma.label.delete({ where: { id } })\<close>: a missing label is the error P2025.\<close>

definition label_delete :: "DB \<Rightarrow> int \<Rightarrow> (exn + unit) \<times> DB" where
  "label_delete db lid =
     (if lid \<in> lb_id ` set (labels db) then (Inr (), delete_labels db (\<lambda>i. i = lid))
      else (Inl (PrismaClientKnownRequestError ''P2025''), db))"

text \<open>\<^verbatim>\<open>prisma.label.deleteMany({ where: { id: { in: labelIds } } })\<close>: no error when an id
  matches no label.\<close>

definition label_deleteMany :: "DB \<Rightarrow> int list \<Rightarrow> (exn + unit) \<times> DB" where
  "label_deleteMany db labelIds = (Inr (), delete_labels db (\<lambda>i. i \<in> set labelIds))"

fun deleteLabel_catch :: "exn \<Rightarrow> AppError" where
  "deleteLabel_catch (PrismaClientKnownRequestError c) =
     (if c = ''P2025'' then AppError ''Label not found'' 404
      else AppError ''Failed to delete label'' 500)"
| "deleteLabel_catch e = AppError ''Failed to delete label'' 500"

definition deleteLabel :: "DB \<Rightarrow> int \<Rightarrow> (AppError + unit) \<times> DB" where
  "deleteLabel db lid =
     (case label_delete db lid of
        (Inl e, db') \<Rightarrow> (Inl (deleteLabel_catch e), db')
      | (Inr u, db') \<Rightarrow> (Inr u, db'))"

definition deleteLabelsBulk :: "DB \<Rightarrow> int list \<Rightarrow> (AppError + unit) \<times> DB" where
  "deleteLabelsBulk db labelIds =
     (case label_deleteMany db labelIds of
        (Inl e, db') \<Rightarrow> (Inl (AppError ''Failed to delete labels'' 500), db')
      | (Inr u, db') \<Rightarrow> (Inr u, db'))"

section \<open>Queries\<close>

subsection \<open>Prisma's \<^verbatim>\<open>where\<close>, \<^verbatim>\<open>orderBy\<close>, \<^verbatim>\<open>skip\<close> and \<^verbatim>\<open>take\<close>\<close>

text \<open>\<^verbatim>\<open>{ gte: a, lte: b }\<close> on a BigInt or date column; a bound left out is \<open>None\<close>.\<close>

record RangeFilter =
  gte :: "int option"
  lte :: "int option"

definition in_range :: "RangeFilter \<Rightarrow> int \<Rightarrow> bool" where
  "in_range f x =
     ((case gte f of None \<Rightarrow> True | Some a \<Rightarrow> a \<le> x) \<and>
      (case lte f of None \<Rightarrow> True | Some b \<Rightarrow> x \<le> b))"

text \<open>\<^verbatim>\<open>Prisma.EventWhereInput\<close>, with the keys the service sets; a key left out is
  \<open>None\<close> (\<open>False\<close> for \<^verbatim>\<open>labels: { none: {} }\<close>).\<close>

record EventWhereInput =
  ew_labels_none :: bool
  ew_timestamp :: "RangeFilter option"
  ew_device_id :: "string option"
  ew_type_in :: "string list option"

definition event_where :: "DB \<Rightarrow> EventWhereInput \<Rightarrow> Event \<Rightarrow> bool" where
  "event_where db w e =
     ((if ew_labels_none w then list_all (\<lambda>le. le_event_id le \<noteq> ev_id e) (label_events db) else True) \<and>
      (case ew_timestamp w of None \<Rightarrow> True | Some f \<Rightarrow> in_range f (ev_timestamp e)) \<and>
      (case ew_device_id w of None \<Rightarrow> True | Some d \<Rightarrow> ev_device_id e = d) \<and>
      (case ew_type_in w of None \<Rightarrow> True | Some ts \<Rightarrow> ev_type e \<in> set ts))"

text \<open>One disjunct of an \<^verbatim>\<open>OR\<close> over the bounds of a label.\<close>

record BoundsWhere =
  bw_start_time :: "RangeFilter option"
  bw_end_time :: "RangeFilter option"

definition bounds_where :: "BoundsWhere \<Rightarrow> LabelRow \<Rightarrow> bool" where
  "bounds_where w l =
     ((case bw_start_time w of None \<Rightarrow> True | Some f \<Rightarrow> in_range f (lb_start_time l)) \<and>
      (case bw_end_time w of None \<Rightarrow> True | Some f \<Rightarrow> in_range f (lb_end_time l)))"

text \<open>\<^verbatim>\<open>Prisma.LabelWhereInput\<close>, with the keys the service sets; \<open>lw_events_some_device\<close>
  is \<^verbatim>\<open>events: { some: { event: { device_id } } }\<close>.\<close>

record LabelWhereInput =
  lw_created_at :: "RangeFilter option"
  lw_created_by :: "string option"
  lw_label_type :: "LabelType option"
  lw_events_some_device :: "string option"
  lw_OR :: "BoundsWhere list option"

definition label_where :: "DB \<Rightarrow> LabelWhereInput \<Rightarrow> LabelRow \<Rightarrow> bool" where
  "label_where db w l =
     ((case lw_created_at w of None \<Rightarrow> True | Some f \<Rightarrow> in_range f (lb_created_at l)) \<and>
      (case lw_created_by w of None \<Rightarrow> True | Some u \<Rightarrow> lb_created_by l = u) \<and>
      (case lw_label_type w of None \<Rightarrow> True | Some t \<Rightarrow> lb_label_type l = t) \<and>
      (case lw_events_some_device w of
         None \<Rightarrow> True
       | Some d \<Rightarrow> list_ex (\<lambda>(le, e). ev_device_id e = d) (included_events db (lb_id l))) \<and>
      (case lw_OR w of None \<Rightarrow> True | Some ws \<Rightarrow> list_ex (\<lambda>bw. bounds_where bw l) ws))"

text \<open>\<^verbatim>\<open>orderBy\<close> on one integer column. The store leaves the order of equal keys open;
  the model keeps the table's.\<close>

fun order_by :: "SortOrder \<Rightarrow> ('a \<Rightarrow> int) \<Rightarrow> 'a list \<Rightarrow> 'a list" where
  "order_by Asc k xs = sort_key k xs"
| "order_by Desc k xs = sort_key (\<lambda>x. - k x) xs"

text \<open>\<^verbatim>\<open>skip\<close> and \<^verbatim>\<open>take\<close>: a negative \<^verbatim>\<open>skip\<close> is refused by the client, a negative
  \<^verbatim>\<open>take\<close> counts from the end.\<close>

definition skip_take :: "int \<Rightarrow> int \<Rightarrow> 'a list \<Rightarrow> exn + 'a list" where
  "skip_take skip tk xs =
     (if skip < 0 then Inl PrismaClientValidationError
      else if 0 \<le> tk then Inr (take (nat tk) (drop (nat skip) xs))
      else Inr (rev (take (nat (- tk)) (drop (nat skip) (rev xs)))))"

text \<open>
  \<^verbatim>\<open>Math.ceil(total / limit)\<close> for a count and an integer. The quotient of doubles is the
  exact quotient rounded; for a count below \<open>2 ^ 53\<close> its ceiling is the ceiling of the exact
  quotient, which is what the model computes.
\<close>

definition Math_ceil_div :: "int \<Rightarrow> int \<Rightarrow> number" where
  "Math_ceil_div a b =
     (if b = 0 then (if a = 0 then NaN else if 0 < a then Infinity else NegInfinity)
      else Num \<lceil>real_of_int a / real_of_int b\<rceil>)"

text \<open>The options the two listings share, and the page they return (its list is named
  \<^verbatim>\<open>events\<close> by the one and \<^verbatim>\<open>labels\<close> by the other).\<close>

record ListOptions =
  page :: int
  limit :: int
  startDate :: "Date option"
  endDate :: "Date option"
  deviceId :: "string option"
  sort' :: "SortOrder option"

record 'a Page =
  records :: "'a list"
  total :: int
  totalPages :: number
  currentPage :: int

text \<open>\<^verbatim>\<open>sort || 'desc'\<close>\<close>

definition sort_or_desc :: "SortOrder option \<Rightarrow> SortOrder" where
  "sort_or_desc s = (case s of None \<Rightarrow> Desc | Some d \<Rightarrow> d)"

text \<open>A string in a condition: \<^verbatim>\<open>undefined\<close> and the empty string are falsy.\<close>

definition truthy :: "string option \<Rightarrow> bool" where
  "truthy s = (s \<noteq> None \<and> s \<noteq> Some [])"

subsection \<open>\<^verbatim>\<open>LabelService.getUnlabeledEvents\<close>\<close>

record GetUnlabeledEventsOptions = ListOptions +
  types :: "string list option"

text \<open>An event of the response: the row with its id and timestamp as strings (the joined
  \<^verbatim>\<open>ads\<close>, \<^verbatim>\<open>channels\<close> and \<^verbatim>\<open>content\<close> rows are left out).\<close>

record EventResponse =
  er_id :: string
  er_device_id :: string
  er_timestamp :: string
  er_type :: string
  er_image_path :: "string option"

definition event_response :: "Event \<Rightarrow> EventResponse" where
  "event_response e =
     \<lparr>er_id = BigInt_toString (ev_id e), er_device_id = ev_device_id e,
      er_timestamp = BigInt_toString (ev_timestamp e), er_type = ev_type e,
      er_image_path = ev_image_path e\<rparr>"

text \<open>Lines 286 to 315: the \<^verbatim>\<open>where\<close> clause, built key by key.\<close>

definition unlabeled_whereClause :: "'a GetUnlabeledEventsOptions_scheme \<Rightarrow> EventWhereInput" where
  "unlabeled_whereClause options =
     (let w0 = \<lparr>ew_labels_none = True, ew_timestamp = None, ew_device_id = None, ew_type_in = None\<rparr>;
          w1 = (if startDate options \<noteq> None \<or> endDate options \<noteq> None
                then w0\<lparr>ew_timestamp :=
                          Some \<lparr>gte = map_option (\<lambda>d. d div 1000) (startDate options),
                                lte = map_option (\<lambda>d. d div 1000) (endDate options)\<rparr>\<rparr>
                else w0);
          w2 = (if truthy (deviceId options) then w1\<lparr>ew_device_id := deviceId options\<rparr> else w1);
          w3 = (if (case types options of None \<Rightarrow> False | Some ts \<Rightarrow> 0 < length ts)
                then w2\<lparr>ew_type_in := types options\<rparr> else w2)
      in w3)"

text \<open>
  Lines 317 to 349. Before it returns, the service logs the timestamps of the first three
  events of the page as dates: \<^verbatim>\<open>new Date(Number(e.timestamp) * 1000).toISOString()\<close>,
  which throws when the product is no time value of a date.
\<close>

definition getUnlabeledEvents_try ::
  "DB \<Rightarrow> 'a GetUnlabeledEventsOptions_scheme \<Rightarrow> exn + EventResponse Page" where
  "getUnlabeledEvents_try db options =
     (let skip = (page options - 1) * limit options;
          whereClause = unlabeled_whereClause options;
          matching = filter (event_where db whereClause) (events db)
      in case skip_take skip (limit options)
                (order_by (sort_or_desc (sort' options)) ev_timestamp matching) of
           Inl e \<Rightarrow> Inl e
         | Inr evs \<Rightarrow>
             if list_all (\<lambda>e. valid_time (Number_of_BigInt (ev_timestamp e) * 1000)) (take 3 evs)
             then
               let total' = int (length matching) in
               Inr \<lparr>records = map event_response evs,
                    total = total',
                    totalPages = Math_ceil_div total' (limit options),
                    currentPage = page options\<rparr>
             else Inl RangeError)"

definition getUnlabeledEvents ::
  "DB \<Rightarrow> 'a GetUnlabeledEventsOptions_scheme \<Rightarrow> AppError + EventResponse Page" where
  "getUnlabeledEvents db options =
     (case getUnlabeledEvents_try db options of
        Inl e \<Rightarrow> Inl (AppError ''Failed to fetch unlabeled events'' 500)
      | Inr r \<Rightarrow> Inr r)"

subsection \<open>\<^verbatim>\<open>LabelService.getLabels\<close>\<close>

record GetLabelsOptions = ListOptions +
  createdBy :: "string option"
  labelType :: "LabelType option"

text \<open>Lines 366 to 384.\<close>

definition labels_whereClause :: "'a GetLabelsOptions_scheme \<Rightarrow> LabelWhereInput" where
  "labels_whereClause options =
     (let w0 = \<lparr>lw_created_at = None, lw_created_by = None, lw_label_type = None,
                lw_events_some_device = None, lw_OR = None\<rparr>;
          w1 = (if startDate options \<noteq> None \<or> endDate options \<noteq> None
                then w0\<lparr>lw_created_at := Some \<lparr>gte = startDate options, lte = endDate options\<rparr>\<rparr>
                else w0);
          w2 = (if truthy (createdBy options) then w1\<lparr>lw_created_by := createdBy options\<rparr> else w1);
          w3 = (if labelType options \<noteq> None then w2\<lparr>lw_label_type := labelType options\<rparr> else w2);
          w4 = (if truthy (deviceId options) then w3\<lparr>lw_events_some_device := deviceId options\<rparr>
                else w3)
      in w4)"

text \<open>In the response of a listed label \<^verbatim>\<open>event_ids\<close> is read before the events are
  sorted for \<^verbatim>\<open>image_paths\<close>.\<close>

definition listed_label :: "DB \<Rightarrow> LabelRow \<Rightarrow> Label" where
  "listed_label db row =
     (let les = included_events db (lb_id row) in
      label_response row les
        (map (\<lambda>(le, e). ev_image_path e) (sort_by_timestamp (\<lambda>(le, e). ev_timestamp e) les)))"

definition getLabels_try :: "DB \<Rightarrow> 'a GetLabelsOptions_scheme \<Rightarrow> exn + Label Page" where
  "getLabels_try db options =
     (let skip = (page options - 1) * limit options;
          whereClause = labels_whereClause options;
          matching = filter (label_where db whereClause) (labels db)
      in case skip_take skip (limit options)
                (order_by (sort_or_desc (sort' options)) lb_created_at matching) of
           Inl e \<Rightarrow> Inl e
         | Inr rows \<Rightarrow>
             let total' = int (length matching) in
             Inr \<lparr>records = map (listed_label db) rows,
                  total = total',
                  totalPages = Math_ceil_div total' (limit options),
                  currentPage = page options\<rparr>)"

definition getLabels :: "DB \<Rightarrow> 'a GetLabelsOptions_scheme \<Rightarrow> AppError + Label Page" where
  "getLabels db options =
     (case getLabels_try db options of
        Inl e \<Rightarrow> Inl (AppError ''Failed to fetch labels'' 500)
      | Inr r \<Rightarrow> Inr r)"

subsection \<open>\<^verbatim>\<open>LabelService.getProgramGuideByDate\<close>\<close>

record ProgramGuideLabel = SubRecords +
  pg_id :: int
  pg_label_type :: LabelType
  pg_created_by :: string
  pg_created_at :: Date
  pg_start_time :: string
  pg_end_time :: string
  pg_notes :: "string option"
  pg_device_id :: "string option"
  pg_image_paths :: "string option list"

text \<open>\<^verbatim>\<open>setUTCHours(0, 0, 0, 0)\<close> and \<^verbatim>\<open>setUTCHours(23, 59, 59, 999)\<close> on a copy of the date.\<close>

definition startOfDay :: "Date \<Rightarrow> Date" where
  "startOfDay date = date - date mod 86400000"

definition endOfDay :: "Date \<Rightarrow> Date" where
  "endOfDay date = startOfDay date + 86399999"

text \<open>Lines 601 to 632.\<close>

definition programGuide_whereClause :: "Date \<Rightarrow> string \<Rightarrow> LabelWhereInput" where
  "programGuide_whereClause date deviceId' =
     (let startTimestamp = startOfDay date div 1000;
          endTimestamp = endOfDay date div 1000;
          window = \<lparr>gte = Some startTimestamp, lte = Some endTimestamp\<rparr>
      in \<lparr>lw_created_at = None, lw_created_by = None, lw_label_type = None,
          lw_events_some_device = Some deviceId',
          lw_OR = Some
            [\<lparr>bw_start_time = Some window, bw_end_time = None\<rparr>,
             \<lparr>bw_start_time = None, bw_end_time = Some window\<rparr>,
             \<lparr>bw_start_time = Some \<lparr>gte = None, lte = Some startTimestamp\<rparr>,
              bw_end_time = Some \<lparr>gte = Some endTimestamp, lte = None\<rparr>\<rparr>]\<rparr>)"

text \<open>\<^verbatim>\<open>label.events[0]?.event.device_id || null\<close> is read before the events are sorted.\<close>

definition programGuide_label :: "DB \<Rightarrow> LabelRow \<Rightarrow> ProgramGuideLabel" where
  "programGuide_label db row =
     (let les = included_events db (lb_id row) in
      \<lparr>song = song row, ad = ad row, error = error row, program = program row,
       movie = movie row, promo = promo row, sports = sports row,
       pg_id = lb_id row,
       pg_label_type = lb_label_type row,
       pg_created_by = lb_created_by row,
       pg_created_at = lb_created_at row,
       pg_start_time = BigInt_toString (lb_start_time row),
       pg_end_time = BigInt_toString (lb_end_time row),
       pg_notes = lb_notes row,
       pg_device_id =
         (case les of [] \<Rightarrow> None
          | (le, e) # rest \<Rightarrow> if ev_device_id e = [] then None else Some (ev_device_id e)),
       pg_image_paths =
         map (\<lambda>(le, e). ev_image_path e) (sort_by_timestamp (\<lambda>(le, e). ev_timestamp e) les)\<rparr>)"

text \<open>
  The \<^verbatim>\<open>sort\<close> parameter defaults to \<^verbatim>\<open>'desc'\<close> when it is not passed. The start of
  the day of a valid date is a valid time; the end of the day is not when the day is the
  last one a date can hold, and then \<^verbatim>\<open>BigInt(Math.floor(NaN / 1000))\<close> throws a
  RangeError.
\<close>

definition getProgramGuideByDate_try ::
  "DB \<Rightarrow> Date \<Rightarrow> string \<Rightarrow> SortOrder option \<Rightarrow> exn + ProgramGuideLabel list" where
  "getProgramGuideByDate_try db date deviceId' srt =
     (case find (\<lambda>d. device_id d = deviceId') (devices db) of
        None \<Rightarrow> Inl (App (AppError ''Invalid device ID'' 404))
      | Some device \<Rightarrow>
          if valid_time (endOfDay date)
          then
            let whereClause = programGuide_whereClause date deviceId';
                rows = order_by (sort_or_desc srt) lb_start_time
                         (filter (label_where db whereClause) (labels db))
            in Inr (map (programGuide_label db) rows)
          else Inl RangeError)"

text \<open>The \<^verbatim>\<open>catch\<close> block passes an \<^verbatim>\<open>AppError\<close> on and replaces any other error.\<close>

fun getProgramGuideByDate_catch :: "exn \<Rightarrow> AppError" where
  "getProgramGuideByDate_catch (App e) = e"
| "getProgramGuideByDate_catch e = AppError ''Failed to fetch program guide'' 500"

definition getProgramGuideByDate ::
  "DB \<Rightarrow> Date \<Rightarrow> string \<Rightarrow> SortOrder option \<Rightarrow> AppError + ProgramGuideLabel list" where
  "getProgramGuideByDate db date deviceId' srt =
     (case getProgramGuideByDate_try db date deviceId' srt of
        Inl e \<Rightarrow> Inl (getProgramGuideByDate_catch e)
      | Inr r \<Rightarrow> Inr r)"

section \<open>Notions of the claims\<close>

text \<open>The type-specific objects of a row, a request or a response, and the one a label
  type names.\<close>

definition sub_records_of :: "'a SubRecords_scheme \<Rightarrow> SubRecords" where
  "sub_records_of r =
     \<lparr>song = song r, ad = ad r, error = error r, program = program r, movie = movie r,
      promo = promo r, sports = sports r\<rparr>"

fun sub_of :: "LabelType \<Rightarrow> 'a SubRecords_scheme \<Rightarrow> fields option" where
  "sub_of Song r = song r"
| "sub_of Ad r = ad r"
| "sub_of Error r = error r"
| "sub_of Program r = program r"
| "sub_of Movie r = movie r"
| "sub_of Promo r = promo r"
| "sub_of Sports r = sports r"

text \<open>
  A label lies on a device when one of its events was captured by it.
\<close>

definition on_device :: "DB \<Rightarrow> LabelRow \<Rightarrow> string \<Rightarrow> bool" where
  "on_device db l d =
     (\<exists>le \<in> set (label_events db). le_label_id le = lb_id l \<and>
        (\<exists>e \<in> set (events db). ev_id e = le_event_id le \<and> ev_device_id e = d))"

text \<open>
  The filters of the two listings, as the options activate them: a date bound when the date
  is given (for events in whole seconds, for labels on the creation time), the device, the
  creator and the types when they are given and not empty, the label type when it is given.
  An unlabeled event is one no association row names.
\<close>

definition unlabeled_filters :: "DB \<Rightarrow> 'a GetUnlabeledEventsOptions_scheme \<Rightarrow> Event \<Rightarrow> bool" where
  "unlabeled_filters db options e =
     ((\<forall>le \<in> set (label_events db). le_event_id le \<noteq> ev_id e) \<and>
      (\<forall>d. startDate options = Some d \<longrightarrow> d div 1000 \<le> ev_timestamp e) \<and>
      (\<forall>d. endDate options = Some d \<longrightarrow> ev_timestamp e \<le> d div 1000) \<and>
      (\<forall>d. deviceId options = Some d \<longrightarrow> d \<noteq> [] \<longrightarrow> ev_device_id e = d) \<and>
      (\<forall>ts. types options = Some ts \<longrightarrow> ts \<noteq> [] \<longrightarrow> ev_type e \<in> set ts))"

definition label_filters :: "DB \<Rightarrow> 'a GetLabelsOptions_scheme \<Rightarrow> LabelRow \<Rightarrow> bool" where
  "label_filters db options l =
     ((\<forall>d. startDate options = Some d \<longrightarrow> d \<le> lb_created_at l) \<and>
      (\<forall>d. endDate options = Some d \<longrightarrow> lb_created_at l \<le> d) \<and>
      (\<forall>u. createdBy options = Some u \<longrightarrow> u \<noteq> [] \<longrightarrow> lb_created_by l = u) \<and>
      (\<forall>t. labelType options = Some t \<longrightarrow> lb_label_type l = t) \<and>
      (\<forall>d. deviceId options = Some d \<longrightarrow> d \<noteq> [] \<longrightarrow> on_device db l d))"

text \<open>
  The UTC day of a date, from 00:00:00.000 to 23:59:59.999, and the interval of a label,
  both as sets of instants in milliseconds; a label overlaps the day when the two meet.
\<close>

definition utc_day_window :: "Date \<Rightarrow> int set" where
  "utc_day_window date =
     {86400000 * (date div 86400000) .. 86400000 * (date div 86400000) + 86399999}"

definition label_interval :: "LabelRow \<Rightarrow> int set" where
  "label_interval l = {1000 * lb_start_time l .. 1000 * lb_end_time l}"

definition overlaps_day :: "LabelRow \<Rightarrow> Date \<Rightarrow> bool" where
  "overlaps_day l date = (label_interval l \<inter> utc_day_window date \<noteq> {})"

text \<open>
  What the schema's keys give a store: the ids of the events are distinct, so are the ids
  of the labels, and no row carries a label id the sequence has not reached yet.
\<close>

definition store_wf :: "DB \<Rightarrow> bool" where
  "store_wf db =
     (distinct (map ev_id (events db)) \<and>
      distinct (map lb_id (labels db)) \<and>
      list_all (\<lambda>l. lb_id l \<le> label_seq db) (labels db) \<and>
      list_all (\<lambda>le. le_label_id le \<le> label_seq db) (label_events db))"

text \<open>
  The association rows a write creates for a label, whether the uniqueness constraint
  accepts them one after the other, and whether the rows of a request collide with the
  rows of the other labels (the rows of the label itself are deleted or do not exist yet).
\<close>

definition new_rows :: "int \<Rightarrow> int list \<Rightarrow> LabelEvent list" where
  "new_rows lid eventIds = map (\<lambda>i. \<lparr>le_label_id = lid, le_event_id = i\<rparr>) eventIds"

fun accepts :: "unique_constraint \<Rightarrow> LabelEvent list \<Rightarrow> LabelEvent list \<Rightarrow> bool" where
  "accepts uq rows [] = True"
| "accepts uq rows (r # rs) = (\<not> uq rows r \<and> accepts uq (rows @ [r]) rs)"

definition no_conflict :: "unique_constraint \<Rightarrow> DB \<Rightarrow> int \<Rightarrow> int list \<Rightarrow> bool" where
  "no_conflict uq db lid eventIds =
     accepts uq (filter (\<lambda>le. le_label_id le \<noteq> lid) (label_events db)) (new_rows lid eventIds)"

text \<open>The invariant of the data model on the bounds of the stored labels.\<close>

definition bounds_ordered :: "DB \<Rightarrow> bool" where
  "bounds_ordered db = list_all (\<lambda>l. lb_start_time l \<le> lb_end_time l) (labels db)"

section \<open>A small store for the examples\<close>

text \<open>Two uniqueness constraints an association table can carry: one label per event, or
  one row per pair of a label and an event.\<close>

definition unique_event :: unique_constraint where
  "unique_event rows r = (le_event_id r \<in> le_event_id ` set rows)"

definition unique_pair :: unique_constraint where
  "unique_pair rows r = (r \<in> set rows)"

definition demo_db :: DB where
  "demo_db =
     \<lparr>events =
        [\<lparr>ev_id = 1, ev_device_id = ''dev-1'', ev_timestamp = 300, ev_type = ''29'',
          ev_image_path = Some ''c.jpg''\<rparr>,
         \<lparr>ev_id = 2, ev_device_id = ''dev-1'', ev_timestamp = 100, ev_type = ''29'',
          ev_image_path = None\<rparr>,
         \<lparr>ev_id = 3, ev_device_id = ''dev-2'', ev_timestamp = 200, ev_type = ''33'',
          ev_image_path = Some ''b.jpg''\<rparr>],
      labels =
        [\<lparr>song = Some [(''title'', ''Resham'')], ad = None, error = None, program = None,
          movie = None, promo = None, sports = None,
          lb_id = 1, lb_label_type = Song, lb_created_by = ''asha'', lb_created_at = 5000,
          lb_start_time = 300, lb_end_time = 300, lb_notes = None\<rparr>],
      label_events = [\<lparr>le_label_id = 1, le_event_id = 1\<rparr>],
      devices = [\<lparr>device_id = ''dev-1''\<rparr>, \<lparr>device_id = ''dev-2''\<rparr>],
      label_seq = 1\<rparr>"

definition demo_create :: "string list \<Rightarrow> CreateLabel" where
  "demo_create ids =
     \<lparr>song = None, ad = Some [(''brand'', ''Wai Wai'')], error = None, program = None,
      movie = None, promo = None, sports = None,
      c_event_ids = ids, c_label_type = Ad, c_notes = None, c_created_by = ''bina''\<rparr>"

definition demo_update :: "string list option \<Rightarrow> LabelType option \<Rightarrow> UpdateLabel" where
  "demo_update ids t =
     \<lparr>song = None, ad = None, error = None, program = None, movie = None, promo = None,
      sports = Some [(''program_title'', ''Final''), (''sport_type'', ''cricket'')],
      u_event_ids = ids, u_label_type = t, u_notes = None\<rparr>"

definition demo_unlabeled_options :: GetUnlabeledEventsOptions where
  "demo_unlabeled_options =
     \<lparr>page = 2, limit = 1, startDate = Some 100500, endDate = None, deviceId = Some '''',
      sort' = None, types = Some [''29'', ''33'']\<rparr>"

definition demo_labels_options :: GetLabelsOptions where
  "demo_labels_options =
     \<lparr>page = 1, limit = 10, startDate = None, endDate = Some 5000, deviceId = Some ''dev-1'',
      sort' = Some Asc, createdBy = Some ''asha'', labelType = Some Song\<rparr>"

text \<open>A store whose only event has a timestamp that no double denotes.\<close>

definition far_db :: DB where
  "far_db =
     \<lparr>events =
        [\<lparr>ev_id = 1, ev_device_id = ''dev-1'', ev_timestamp = 9007199254740993, ev_type = ''29'',
          ev_image_path = Some ''z.jpg''\<rparr>],
      labels = [], label_events = [], devices = [\<lparr>device_id = ''dev-1''\<rparr>], label_seq = 0\<rparr>"

section \<open>The conversions on examples\<close>

lemma StringToBigInt_examples:
  "StringToBigInt ''42'' = Some 42 \<and> StringToBigInt '' -7 '' = Some (- 7) \<and>
   StringToBigInt ''0x1f'' = Some 31 \<and> StringToBigInt '''' = Some 0 \<and>
   StringToBigInt ''4e2'' = None \<and> StringToBigInt ''-'' = None"
  by (simp add: StringToBigInt_def trimString_def isWhiteSpace_def literalValue_def digitValue_def)

lemma BigInt_toString_examples:
  "BigInt_toString 0 = ''0'' \<and> BigInt_toString 1207 = ''1207'' \<and> BigInt_toString (- 35) = ''-35''"
  by (simp add: BigInt_toString_def natToString.simps digitChar_def)

lemma Number_of_BigInt_examples:
  "Number_of_BigInt 9007199254740993 = 9007199254740992 \<and>
   Number_of_BigInt 9007199254740995 = 9007199254740996 \<and>
   Number_of_BigInt (- 9007199254740993) = - 9007199254740992 \<and>
   Number_of_BigInt 1700000000 = 1700000000"
  by (simp add: Number_of_BigInt_def bitLength.simps Let_def)

section \<open>Properties of the conversions\<close>

lemma bitLength_le: "n < 2 ^ k \<Longrightarrow> bitLength n \<le> k"
proof (induction k arbitrary: n)
  case 0
  then show ?case by (simp add: bitLength.simps)
next
  case (Suc k)
  then have "n div 2 < 2 ^ k" by simp
  from Suc.IH [OF this] show ?case
    by (subst bitLength.simps) simp
qed

lemma Number_of_BigInt_exact: "\<bar>n\<bar> \<le> 2 ^ 53 \<Longrightarrow> Number_of_BigInt n = n"
proof -
  assume a: "\<bar>n\<bar> \<le> 2 ^ 53"
  show ?thesis
  proof (cases "\<bar>n\<bar> < 2 ^ 53")
    case True
    then have "nat \<bar>n\<bar> < 2 ^ 53" by (simp add: nat_less_iff)
    then have "bitLength (nat \<bar>n\<bar>) \<le> 53" by (rule bitLength_le)
    then show ?thesis by (simp add: Number_of_BigInt_def Let_def)
  next
    case False
    with a have "n = 9007199254740992 \<or> n = - 9007199254740992" by auto
    moreover have "Number_of_BigInt 9007199254740992 = 9007199254740992"
      by (simp add: Number_of_BigInt_def bitLength.simps Let_def)
    moreover have "Number_of_BigInt (- 9007199254740992) = - 9007199254740992"
      by (simp add: Number_of_BigInt_def bitLength.simps Let_def)
    ultimately show ?thesis by blast
  qed
qed

lemma parse_event_ids_iff:
  "parse_event_ids ss = Inr ids \<longleftrightarrow> map StringToBigInt ss = map Some ids"
proof (induction ss arbitrary: ids)
  case Nil
  then show ?case by auto
next
  case (Cons s ss)
  show ?case
  proof (cases "StringToBigInt s")
    case None
    then show ?thesis by (cases ids) auto
  next
    case (Some z)
    show ?thesis
    proof (cases "parse_event_ids ss")
      case (Inl e)
      with Cons.IH have "\<And>zs. map StringToBigInt ss \<noteq> map Some zs" by simp
      with Some Inl show ?thesis by (cases ids) auto
    next
      case (Inr zs)
      with Cons.IH [of zs] have "map StringToBigInt ss = map Some zs" by simp
      with Some Inr show ?thesis by (cases ids) (auto simp add: inj_map_eq_map)
    qed
  qed
qed

lemma parse_event_ids_error: "parse_event_ids ss = Inl e \<Longrightarrow> e = SyntaxError"
  by (induction ss arbitrary: e) (auto split: option.splits sum.splits)

lemma Math_min_Cons: "xs \<noteq> [] \<Longrightarrow> Math_min xs = Num (Min (set xs))"
  by (cases xs) (simp_all add: Min.set_eq_fold [symmetric])

lemma Math_max_Cons: "xs \<noteq> [] \<Longrightarrow> Math_max xs = Num (Max (set xs))"
  by (cases xs) (simp_all add: Max.set_eq_fold [symmetric])

lemma fold_min_le_fold_max: "fold min xs (a :: int) \<le> fold max xs b" if "a \<le> b"
  using that by (induction xs arbitrary: a b) (auto simp add: min_def max_def)


text \<open>A BigInt written as a string reads back as itself.\<close>

lemma digit_cases:
  fixes d :: nat
  assumes "d < 10"
  shows "d = 0 \<or> d = 1 \<or> d = 2 \<or> d = 3 \<or> d = 4 \<or> d = 5 \<or> d = 6 \<or> d = 7 \<or> d = 8 \<or> d = 9"
  using assms by arith

lemma digitChar_props:
  assumes "d < 10"
  shows "digitValue (digitChar d) = Some d" and "\<not> isWhiteSpace (digitChar d)"
    and "digitChar d \<noteq> CHR ''-''" and "digitChar d \<noteq> CHR ''+''"
    and "digitChar d = CHR ''0'' \<longleftrightarrow> d = 0"
  using digit_cases [OF assms]
  by (auto simp add: digitChar_def digitValue_def isWhiteSpace_def)

lemma digitsValue_snoc:
  "digitsValue r acc (xs @ [c]) =
     (case digitsValue r acc xs of
        None \<Rightarrow> None
      | Some a \<Rightarrow> (case digitValue c of None \<Rightarrow> None | Some d \<Rightarrow> if d < r then Some (a * r + d) else None))"
  by (induction xs arbitrary: acc) (auto split: option.splits)

lemma natToString_value: "digitsValue 10 0 (natToString n) = Some n"
proof (induction n rule: natToString.induct)
  case (1 n)
  show ?case
  proof (cases "n < 10")
    case True
    then show ?thesis
      by (subst natToString.simps) (simp add: digitChar_props)
  next
    case False
    with 1 have "digitsValue 10 0 (natToString (n div 10)) = Some (n div 10)" by simp
    moreover have "n mod 10 < 10" by simp
    ultimately show ?thesis
      using False
      by (subst natToString.simps) (simp add: digitsValue_snoc digitChar_props)
  qed
qed

lemma natToString_nonempty: "natToString n \<noteq> []"
  by (subst natToString.simps) simp

lemma natToString_last: "\<exists>d < 10. last (natToString n) = digitChar d"
proof (cases "n < 10")
  case True
  then show ?thesis by (subst natToString.simps) auto
next
  case False
  have "n mod 10 < 10" by simp
  then show ?thesis using False by (subst natToString.simps) (auto intro: exI [of _ "n mod 10"])
qed

lemma natToString_hd: "\<exists>d < 10. hd (natToString n) = digitChar d \<and> (d = 0 \<longrightarrow> n = 0)"
proof (induction n rule: natToString.induct)
  case (1 n)
  show ?case
  proof (cases "n < 10")
    case True
    then show ?thesis by (subst natToString.simps) auto
  next
    case False
    with 1 obtain d where d: "d < 10" "hd (natToString (n div 10)) = digitChar d" "d = 0 \<longrightarrow> n div 10 = 0"
      by blast
    from False have "n div 10 \<noteq> 0" by simp
    with d have "d \<noteq> 0" by blast
    with d False show ?thesis
      by (subst natToString.simps) (auto simp add: natToString_nonempty)
  qed
qed

lemma trimString_id:
  assumes "s \<noteq> []" and "\<not> isWhiteSpace (hd s)" and "\<not> isWhiteSpace (last s)"
  shows "trimString s = s"
proof -
  have 1: "dropWhile isWhiteSpace s = s"
    using assms(1,2) by (cases s) auto
  have 2: "dropWhile isWhiteSpace (rev s) = rev s"
    using assms(1,3) by (cases "rev s") (auto simp add: last_rev [symmetric] simp del: last_rev)
  show ?thesis by (simp add: trimString_def 1 2)
qed

lemma StringToBigInt_natToString: "StringToBigInt (natToString n) = Some (int n)"
proof -
  obtain d where d: "d < 10" "hd (natToString n) = digitChar d" "d = 0 \<longrightarrow> n = 0"
    using natToString_hd by blast
  obtain d' where d': "d' < 10" "last (natToString n) = digitChar d'"
    using natToString_last by blast
  have t: "trimString (natToString n) = natToString n"
    using d d' by (intro trimString_id) (simp_all add: natToString_nonempty digitChar_props)
  obtain c cs where cs: "natToString n = c # cs"
    using natToString_nonempty by (cases "natToString n") auto
  with d have c: "c = digitChar d" by simp
  have v: "literalValue 10 (c # cs) = Some (int n)"
    using natToString_value [of n] by (simp add: literalValue_def cs)
  show ?thesis
  proof (cases "d = 0")
    case True
    with d have "n = 0" by simp
    then show ?thesis
      by (simp add: natToString.simps digitChar_def StringToBigInt_def trimString_def isWhiteSpace_def
          literalValue_def digitValue_def)
  next
    case False
    with d(1) have "c \<noteq> CHR ''0''" "c \<noteq> CHR ''-''" "c \<noteq> CHR ''+''"
      by (simp_all add: c digitChar_props)
    moreover have "trimString (c # cs) = c # cs"
      using t by (simp add: cs)
    ultimately show ?thesis
      using v by (simp add: StringToBigInt_def cs)
  qed
qed

lemma StringToBigInt_toString: "StringToBigInt (BigInt_toString n) = Some n"
proof (cases "n < 0")
  case False
  then show ?thesis by (simp add: BigInt_toString_def StringToBigInt_natToString)
next
  case True
  let ?s = "natToString (nat (- n))"
  obtain d' where d': "d' < 10" "last ?s = digitChar d'"
    using natToString_last by blast
  have ws: "\<not> isWhiteSpace CHR ''-''" by (simp add: isWhiteSpace_def)
  have t: "trimString (CHR ''-'' # ?s) = CHR ''-'' # ?s"
    using d' ws by (intro trimString_id) (simp_all add: natToString_nonempty digitChar_props)
  have "literalValue 10 ?s = Some (int (nat (- n)))"
    using natToString_value [of "nat (- n)"] by (simp add: literalValue_def natToString_nonempty)
  then show ?thesis
    using True by (simp add: BigInt_toString_def StringToBigInt_def t)
qed


section \<open>Properties of the store\<close>

lemma create_label_events_accepts:
  "set eids \<subseteq> ev_id ` set evs \<Longrightarrow> accepts uq rows (new_rows lid eids) \<Longrightarrow>
   create_label_events uq evs rows lid eids = Inr (rows @ new_rows lid eids)"
  by (induction eids arbitrary: rows) (auto simp add: new_rows_def Let_def)

lemma create_label_events_rejects:
  "set eids \<subseteq> ev_id ` set evs \<Longrightarrow> \<not> accepts uq rows (new_rows lid eids) \<Longrightarrow>
   create_label_events uq evs rows lid eids = Inl (PrismaClientKnownRequestError ''P2002'')"
  by (induction eids arbitrary: rows) (auto simp add: new_rows_def Let_def)

lemma create_label_events_rows:
  "create_label_events uq evs rows lid eids = Inr rows' \<Longrightarrow> rows' = rows @ new_rows lid eids"
proof (induction eids arbitrary: rows)
  case Nil
  then show ?case by (simp add: new_rows_def)
next
  case (Cons i eids)
  let ?row = "\<lparr>le_label_id = lid, le_event_id = i\<rparr>"
  from Cons.prems have "create_label_events uq evs (rows @ [?row]) lid eids = Inr rows'"
    by (simp add: Let_def split: if_splits)
  from Cons.IH [OF this] show ?case by (simp add: new_rows_def)
qed

lemma new_rows_label_id: "list_all (\<lambda>le. le_label_id le = lid) (new_rows lid ids)"
  by (simp add: new_rows_def list_all_iff)

lemma findMany_length:
  assumes "distinct (map ev_id evs)" and "distinct ids" and "set ids \<subseteq> ev_id ` set evs"
  shows "length (filter (\<lambda>e. ev_id e \<in> set ids) evs) = length ids"
proof -
  let ?sel = "filter (\<lambda>e. ev_id e \<in> set ids) evs"
  have d: "distinct (map ev_id ?sel)"
    using assms(1) by (simp add: distinct_map_filter)
  have s: "set (map ev_id ?sel) = set ids"
    using assms(3) by auto
  have "length ?sel = length (map ev_id ?sel)" by simp
  also have "\<dots> = card (set (map ev_id ?sel))" using distinct_card [OF d] by simp
  also have "\<dots> = card (set ids)" by (simp only: s)
  also have "\<dots> = length ids" using distinct_card [OF assms(2)] .
  finally show ?thesis .
qed

lemma findMany_short:
  assumes "distinct (map ev_id evs)" and "\<not> (distinct ids \<and> set ids \<subseteq> ev_id ` set evs)"
  shows "length (filter (\<lambda>e. ev_id e \<in> set ids) evs) < length ids"
proof -
  let ?sel = "filter (\<lambda>e. ev_id e \<in> set ids) evs"
  have d: "distinct (map ev_id ?sel)"
    using assms(1) by (simp add: distinct_map_filter)
  have sub: "set (map ev_id ?sel) \<subseteq> set ids" by auto
  have "length ?sel = card (set (map ev_id ?sel))" using d by (metis distinct_card length_map)
  show ?thesis
  proof (cases "set ids \<subseteq> ev_id ` set evs")
    case True
    with assms(2) have "\<not> distinct ids" by simp
    then have "card (set ids) < length ids"
      by (metis card_distinct card_length le_neq_implies_less)
    moreover have "card (set (map ev_id ?sel)) \<le> card (set ids)"
      using sub by (simp add: card_mono)
    ultimately show ?thesis using \<open>length ?sel = card (set (map ev_id ?sel))\<close> by simp
  next
    case False
    then obtain i where "i \<in> set ids" "i \<notin> ev_id ` set evs" by blast
    then have "set (map ev_id ?sel) \<subset> set ids" using sub by auto
    then have "card (set (map ev_id ?sel)) < card (set ids)"
      by (simp add: psubset_card_mono)
    moreover have "card (set ids) \<le> length ids" by (rule card_length)
    ultimately show ?thesis using \<open>length ?sel = card (set (map ev_id ?sel))\<close> by simp
  qed
qed

lemma joined_new_rows:
  "map snd (concat (map (\<lambda>le. map (\<lambda>e. (le, e)) (filter (\<lambda>e. ev_id e = le_event_id le) evs))
      (new_rows lid ids))) = concat (map (\<lambda>i. filter (\<lambda>e. ev_id e = i) evs) ids)"
  by (induction ids) (simp_all add: new_rows_def comp_def)

lemma joined_new_rows_ids:
  "distinct (map ev_id evs) \<Longrightarrow> set ids \<subseteq> ev_id ` set evs \<Longrightarrow>
   map (\<lambda>(le, e). le_event_id le)
     (concat (map (\<lambda>le. map (\<lambda>e. (le, e)) (filter (\<lambda>e. ev_id e = le_event_id le) evs))
        (new_rows lid ids))) = ids"
proof (induction ids)
  case Nil
  then show ?case by (simp add: new_rows_def)
next
  case (Cons i ids)
  from Cons.prems obtain e where e: "e \<in> set evs" "ev_id e = i" by auto
  have "filter (\<lambda>e. ev_id e = i) evs = [e]"
  proof -
    have "length (filter (\<lambda>e. ev_id e \<in> set [i]) evs) = length [i]"
      using Cons.prems by (intro findMany_length) auto
    then obtain x where x: "filter (\<lambda>e. ev_id e = i) evs = [x]"
      by (cases "filter (\<lambda>e. ev_id e = i) evs") auto
    have "e \<in> set (filter (\<lambda>e. ev_id e = i) evs)" using e by simp
    with x show ?thesis by simp
  qed
  with Cons show ?case by (simp add: new_rows_def)
qed

lemma mset_filter_split:
  "a \<notin> set ids \<Longrightarrow>
   mset (filter (\<lambda>e. f e = a \<or> f e \<in> set ids) xs) =
     mset (filter (\<lambda>e. f e = a) xs) + mset (filter (\<lambda>e. f e \<in> set ids) xs)"
  by (induction xs) auto

lemma mset_concat_filter:
  "distinct ids \<Longrightarrow>
   mset (concat (map (\<lambda>i. filter (\<lambda>e. f e = i) xs) ids)) = mset (filter (\<lambda>e. f e \<in> set ids) xs)"
proof (induction ids)
  case Nil
  then show ?case by simp
next
  case (Cons a ids)
  then have "a \<notin> set ids" by simp
  from mset_filter_split [OF this, of f xs] Cons show ?case by simp
qed

lemma included_events_fresh:
  assumes "list_all (\<lambda>le. le_label_id le \<noteq> lid) rows"
  shows "included_events (db\<lparr>labels := ls, label_events := rows @ new_rows lid ids, label_seq := n\<rparr>) lid =
    concat (map (\<lambda>le. map (\<lambda>e. (le, e)) (filter (\<lambda>e. ev_id e = le_event_id le) (events db)))
      (new_rows lid ids))"
proof -
  have 1: "filter (\<lambda>le. le_label_id le = lid) rows = []"
    using assms by (auto simp add: list_all_iff filter_empty_conv)
  have 2: "filter (\<lambda>le. le_label_id le = lid) (new_rows lid ids) = new_rows lid ids"
    by (simp add: new_rows_def)
  show ?thesis by (simp add: included_events_def 1 2)
qed

lemma included_events_new_rows:
  assumes "filter (\<lambda>le. le_label_id le = lid) rows = []"
    and "events db' = evs" and "label_events db' = rows @ new_rows lid ids"
  shows "included_events db' lid =
    concat (map (\<lambda>le. map (\<lambda>e. (le, e)) (filter (\<lambda>e. ev_id e = le_event_id le) evs))
      (new_rows lid ids))"
proof -
  have "filter (\<lambda>le. le_label_id le = lid) (new_rows lid ids) = new_rows lid ids"
    by (simp add: new_rows_def)
  then show ?thesis by (simp add: included_events_def assms)
qed

lemma find_label:
  "lid \<in> lb_id ` set ls \<Longrightarrow> \<exists>row. find (\<lambda>l. lb_id l = lid) ls = Some row \<and> lb_id row = lid"
  by (induction ls) auto

lemma sort_by_timestamp_exact:
  assumes "\<forall>x \<in> set xs. \<bar>ts x\<bar> \<le> 2 ^ 53"
  shows "sorted (map ts (sort_by_timestamp ts xs))"
proof -
  have "sorted (map (\<lambda>x. Number_of_BigInt (ts x)) (sort_by_timestamp ts xs))"
    unfolding sort_by_timestamp_def by (rule sorted_sort_key)
  moreover have "map (\<lambda>x. Number_of_BigInt (ts x)) (sort_by_timestamp ts xs) = map ts (sort_by_timestamp ts xs)"
    using assms by (simp add: sort_by_timestamp_def Number_of_BigInt_exact)
  ultimately show ?thesis by simp
qed

lemma mset_sort_by_timestamp: "mset (sort_by_timestamp ts xs) = mset xs"
  by (simp add: sort_by_timestamp_def)

lemma set_sort_by_timestamp: "set (sort_by_timestamp ts xs) = set xs"
  by (simp add: sort_by_timestamp_def)


section \<open>Evaluating the model\<close>

lemmas demo_defs = demo_db_def demo_create_def demo_update_def unique_event_def unique_pair_def

lemmas parse_defs = StringToBigInt_def trimString_def isWhiteSpace_def literalValue_def digitValue_def

lemmas create_defs = createLabel_def createLabel_try_def createLabel_data_def event_findMany_in_def
  label_create_def select_sub_def label_response_def included_events_def sort_by_timestamp_def

section \<open>\<^verbatim>\<open>createLabel\<close>: the errors\<close>

text \<open>
  Claim C10. A call of \<^verbatim>\<open>createLabel\<close> with an empty list of event ids fails with the
  generic error (status 500): \<^verbatim>\<open>Math.min()\<close> is \<^verbatim>\<open>Infinity\<close>, whose conversion to a
  BigInt throws. The store is left as it was, so no label with an empty event set is created.
\<close>

theorem createLabel_empty_event_ids:
  "c_event_ids data = [] \<Longrightarrow>
   createLabel uq now db data = (Inl (AppError ''Failed to create label'' 500), db)"
  by (simp add: createLabel_def createLabel_try_def createLabel_data_def event_findMany_in_def)

theorem createLabel_empty_event_ids_witness:
  "c_event_ids (demo_create []) = [] \<and>
   createLabel unique_event 6000 demo_db (demo_create []) =
     (Inl (AppError ''Failed to create label'' 500), demo_db)"
  using createLabel_empty_event_ids [of "demo_create []" unique_event 6000 demo_db]
  by (simp add: demo_create_def)

text \<open>
  Claim C1. The claim asks for the not-found error (status 404, "One or more events not
  found") when an event id names no event. The service throws that error inside the
  \<^verbatim>\<open>try\<close> block, and the \<^verbatim>\<open>catch\<close> block replaces every error but P2002 by the generic
  one: on the store of the examples, whose events are 1, 2 and 3, a label over the events 1
  and 999 is refused with status 500 and the message "Failed to create label". No label is
  created.
\<close>

theorem createLabel_missing_event_is_500:
  "createLabel uq now demo_db (demo_create [''1'', ''999'']) =
     (Inl (AppError ''Failed to create label'' 500), demo_db)"
  by (simp add: create_defs demo_defs parse_defs)

text \<open>The same holds of every call in which a string of \<^verbatim>\<open>event_ids\<close> is no id of an
  event, on a store whose event ids are distinct.\<close>

lemma createLabel_missing_event:
  assumes pk: "distinct (map ev_id (events db))"
    and missing: "\<exists>s \<in> set (c_event_ids data). StringToBigInt s \<notin> Some ` ev_id ` set (events db)"
  shows "createLabel uq now db data = (Inl (AppError ''Failed to create label'' 500), db)"
proof (cases "parse_event_ids (c_event_ids data)")
  case (Inl e)
  then have "e = SyntaxError" by (rule parse_event_ids_error)
  with Inl show ?thesis
    by (simp add: createLabel_def createLabel_try_def createLabel_data_def)
next
  case (Inr ids)
  then have m: "map StringToBigInt (c_event_ids data) = map Some ids"
    by (simp add: parse_event_ids_iff)
  from missing obtain s where s: "s \<in> set (c_event_ids data)"
    "StringToBigInt s \<notin> Some ` ev_id ` set (events db)" by blast
  from s(1) have "StringToBigInt s \<in> set (map StringToBigInt (c_event_ids data))" by simp
  with m obtain i where "i \<in> set ids" "StringToBigInt s = Some i" by auto
  with s(2) have "\<not> set ids \<subseteq> ev_id ` set (events db)" by auto
  then have "length (filter (\<lambda>e. ev_id e \<in> set ids) (events db)) < length ids"
    using pk by (intro findMany_short) simp_all
  then show ?thesis
    using Inr
    by (simp add: createLabel_def createLabel_try_def createLabel_data_def event_findMany_in_def)
qed


text \<open>
  Claim C8. When the store reports a violation of a uniqueness constraint (P2002) on the
  write of \<^verbatim>\<open>createLabel\<close>, the call fails with the error of status 400 "Label already
  exists for one or more events", and the tables of labels and associations are unchanged.
\<close>

theorem createLabel_P2002_is_400:
  assumes "createLabel_data db data = Inr labelData"
    and "fst (label_create uq now db labelData) = Inl (PrismaClientKnownRequestError ''P2002'')"
  shows "fst (createLabel uq now db data) =
           Inl (AppError ''Label already exists for one or more events'' 400) \<and>
         labels (snd (createLabel uq now db data)) = labels db \<and>
         label_events (snd (createLabel uq now db data)) = label_events db"
  using assms
  by (auto simp add: createLabel_def createLabel_try_def label_create_def Let_def
      split: sum.splits prod.splits)

theorem createLabel_P2002_is_400_witness:
  "fst (createLabel unique_event 6000 demo_db (demo_create [''1''])) =
     Inl (AppError ''Label already exists for one or more events'' 400) \<and>
   labels (snd (createLabel unique_event 6000 demo_db (demo_create [''1'']))) = labels demo_db \<and>
   label_events (snd (createLabel unique_event 6000 demo_db (demo_create [''1'']))) =
     label_events demo_db"
proof -
  let ?ld = "\<lparr>song = None, ad = Some [(''brand'', ''Wai Wai'')], error = None, program = None,
      movie = None, promo = None, sports = None,
      lc_label_type = Ad, lc_created_by = ''bina'', lc_start_time = 300, lc_end_time = 300,
      lc_notes = None, lc_events_create = [1]\<rparr>"
  have d: "createLabel_data demo_db (demo_create [''1'']) = Inr ?ld"
    by (simp add: createLabel_data_def event_findMany_in_def select_sub_def demo_defs parse_defs
        Number_of_BigInt_def bitLength.simps)
  have p: "fst (label_create unique_event 6000 demo_db ?ld) =
      Inl (PrismaClientKnownRequestError ''P2002'')"
    by (simp add: label_create_def demo_defs)
  show ?thesis
    using createLabel_P2002_is_400 [OF d p] .
qed

section \<open>\<^verbatim>\<open>createLabel\<close>: the label returned\<close>

lemma createLabel_Inr_D:
  "fst (createLabel uq now db data) = Inr label \<Longrightarrow> parse_event_ids (c_event_ids data) = Inr ids \<Longrightarrow>
   length (filter (\<lambda>e. ev_id e \<in> set ids) (events db)) = length ids \<and>
   (\<exists>rows. create_label_events uq (events db) (label_events db) (label_seq db + 1) ids = Inr rows)"
  by (auto simp add: createLabel_def createLabel_try_def createLabel_data_def label_create_def
      event_findMany_in_def Let_def split: sum.splits prod.splits if_splits)

lemma createLabel_returns_label:
  assumes wf: "store_wf db"
    and parse: "map StringToBigInt (c_event_ids data) = map Some ids"
    and ne: "ids \<noteq> []"
    and dist: "distinct ids"
    and exist: "set ids \<subseteq> ev_id ` set (events db)"
    and acc: "no_conflict uq db (label_seq db + 1) ids"
    and safe: "\<forall>e \<in> set (events db). ev_id e \<in> set ids \<longrightarrow> \<bar>ev_timestamp e\<bar> \<le> 2 ^ 53"
  shows "\<exists>label es. fst (createLabel uq now db data) = Inr label \<and>
           mset es = mset (filter (\<lambda>e. ev_id e \<in> set ids) (events db)) \<and>
           start_time label = BigInt_toString (Min (set (map ev_timestamp es))) \<and>
           end_time label = BigInt_toString (Max (set (map ev_timestamp es))) \<and>
           sorted (map ev_timestamp es) \<and>
           image_paths label = map ev_image_path es"
proof -
  define evs where "evs = filter (\<lambda>e. ev_id e \<in> set ids) (events db)"
  define lid where "lid = label_seq db + 1"
  have pk: "distinct (map ev_id (events db))"
    using wf by (simp add: store_wf_def)
  have p: "parse_event_ids (c_event_ids data) = Inr ids"
    using parse by (simp add: parse_event_ids_iff)
  have len: "length evs = length ids"
    unfolding evs_def using pk dist exist by (rule findMany_length)
  with ne have evs_ne: "evs \<noteq> []" by auto
  have sf: "\<forall>e \<in> set evs. \<bar>ev_timestamp e\<bar> \<le> 2 ^ 53"
    using safe by (simp add: evs_def)
  have num: "map (\<lambda>e. Number_of_BigInt (ev_timestamp e)) evs = map ev_timestamp evs"
    using sf by (simp add: Number_of_BigInt_exact)
  define lo where "lo = Min (set (map ev_timestamp evs))"
  define hi where "hi = Max (set (map ev_timestamp evs))"
  define s where "s = select_sub (c_label_type data) data"
  define ld where "ld =
    \<lparr>song = song s, ad = ad s, error = error s, program = program s, movie = movie s,
     promo = promo s, sports = sports s,
     lc_label_type = c_label_type data, lc_created_by = c_created_by data,
     lc_start_time = lo, lc_end_time = hi, lc_notes = c_notes data, lc_events_create = ids\<rparr>"
  have d: "createLabel_data db data = Inr ld"
    using evs_ne len
    by (simp add: createLabel_data_def p event_findMany_in_def evs_def [symmetric] num
        Math_min_Cons Math_max_Cons lo_def hi_def s_def ld_def Let_def)
  have fresh: "list_all (\<lambda>le. le_label_id le \<noteq> lid) (label_events db)"
    using wf by (auto simp add: store_wf_def lid_def list_all_iff)
  then have keep: "filter (\<lambda>le. le_label_id le \<noteq> lid) (label_events db) = label_events db"
    by (simp add: list_all_iff)
  have cr: "create_label_events uq (events db) (label_events db) lid ids =
      Inr (label_events db @ new_rows lid ids)"
    using exist acc by (simp add: create_label_events_accepts no_conflict_def keep lid_def [symmetric])
  define row where "row =
    \<lparr>song = song ld, ad = ad ld, error = error ld, program = program ld,
     movie = movie ld, promo = promo ld, sports = sports ld,
     lb_id = lid, lb_label_type = lc_label_type ld, lb_created_by = lc_created_by ld,
     lb_created_at = now, lb_start_time = lc_start_time ld,
     lb_end_time = lc_end_time ld, lb_notes = lc_notes ld\<rparr>"
  define db' where "db' = db\<lparr>labels := labels db @ [row],
     label_events := label_events db @ new_rows lid ids, label_seq := lid\<rparr>"
  have lc: "label_create uq now db ld = (Inr row, db')"
    using cr by (simp add: label_create_def lid_def [symmetric] row_def db'_def Let_def ld_def)
  define les where "les = included_events db' lid"
  define srt where "srt = sort_by_timestamp (\<lambda>(le, e). ev_timestamp e) les"
  define es where "es = map snd srt"
  have res: "fst (createLabel uq now db data) =
      Inr (label_response row srt (map (\<lambda>(le, e). ev_image_path e) srt))"
    by (simp add: createLabel_def createLabel_try_def d lc srt_def les_def row_def Let_def)
  have les_eq: "map snd les = concat (map (\<lambda>i. filter (\<lambda>e. ev_id e = i) (events db)) ids)"
    unfolding les_def db'_def included_events_fresh [OF fresh] by (rule joined_new_rows)
  have "mset es = mset (map snd les)"
    by (simp add: es_def srt_def mset_sort_by_timestamp)
  also have "\<dots> = mset evs"
    unfolding les_eq evs_def using dist by (rule mset_concat_filter)
  finally have ms: "mset es = mset evs" .
  then have set_es: "set es = set evs" by (rule mset_eq_setD)
  have "\<forall>x \<in> set les. \<bar>(\<lambda>(le, e). ev_timestamp e) x\<bar> \<le> 2 ^ 53"
  proof
    fix x assume "x \<in> set les"
    then have "snd x \<in> set (map snd les)" by simp
    then have "snd x \<in> set evs"
      using \<open>mset (map snd les) = mset evs\<close> by (metis mset_eq_setD)
    with sf show "\<bar>(\<lambda>(le, e). ev_timestamp e) x\<bar> \<le> 2 ^ 53"
      by (simp add: case_prod_beta)
  qed
  then have "sorted (map (\<lambda>(le, e). ev_timestamp e) srt)"
    unfolding srt_def by (rule sort_by_timestamp_exact)
  then have so: "sorted (map ev_timestamp es)"
    by (simp add: es_def case_prod_unfold comp_def)
  have paths: "map (\<lambda>(le, e). ev_image_path e) srt = map ev_image_path es"
    by (simp add: es_def case_prod_unfold comp_def)
  have st: "ev_timestamp ` set es = ev_timestamp ` {x \<in> set (events db). ev_id x \<in> set ids}"
    using set_es by (simp add: evs_def)
  show ?thesis
    using res ms so
    by (intro exI [of _ "label_response row srt (map (\<lambda>(le, e). ev_image_path e) srt)"]
          exI [of _ es])
       (simp add: label_response_def row_def ld_def lo_def hi_def st paths evs_def)
qed

text \<open>
  Claim C3, amended. The claim as stated fails: the bounds and the order pass through a
  double, which does not keep a timestamp beyond \<open>2 ^ 53\<close>; and a call whose event ids
  all exist returns no label when an id is given twice (the check of the lengths refuses it)
  or when the store reports a violation of uniqueness. For a call with a non-empty list of
  ids of existing events whose timestamps have a magnitude of at most \<open>2 ^ 53\<close>: the label
  returned has the least timestamp of these events as start time, the greatest as end time,
  and the image paths of these events in ascending order of timestamp; and a label is
  returned when the ids are pairwise distinct and the store accepts the rows.
\<close>

theorem createLabel_bounds_and_order:
  assumes wf: "store_wf db"
    and parse: "map StringToBigInt (c_event_ids data) = map Some ids"
    and ne: "ids \<noteq> []"
    and exist: "set ids \<subseteq> ev_id ` set (events db)"
    and safe: "\<forall>e \<in> set (events db). ev_id e \<in> set ids \<longrightarrow> \<bar>ev_timestamp e\<bar> \<le> 2 ^ 53"
  shows "(\<forall>label. fst (createLabel uq now db data) = Inr label \<longrightarrow>
            (\<exists>es. mset es = mset (filter (\<lambda>e. ev_id e \<in> set ids) (events db)) \<and>
               start_time label = BigInt_toString (Min (set (map ev_timestamp es))) \<and>
               end_time label = BigInt_toString (Max (set (map ev_timestamp es))) \<and>
               sorted (map ev_timestamp es) \<and>
               image_paths label = map ev_image_path es)) \<and>
         (distinct ids \<and> no_conflict uq db (label_seq db + 1) ids \<longrightarrow>
            (\<exists>label. fst (createLabel uq now db data) = Inr label))"
proof -
  have pk: "distinct (map ev_id (events db))"
    using wf by (simp add: store_wf_def)
  have p: "parse_event_ids (c_event_ids data) = Inr ids"
    using parse by (simp add: parse_event_ids_iff)
  have "list_all (\<lambda>le. le_label_id le \<noteq> label_seq db + 1) (label_events db)"
    using wf by (auto simp add: store_wf_def list_all_iff)
  then have keep: "filter (\<lambda>le. le_label_id le \<noteq> label_seq db + 1) (label_events db) = label_events db"
    by (simp add: list_all_iff)
  have A: "\<exists>es. mset es = mset (filter (\<lambda>e. ev_id e \<in> set ids) (events db)) \<and>
               start_time label = BigInt_toString (Min (set (map ev_timestamp es))) \<and>
               end_time label = BigInt_toString (Max (set (map ev_timestamp es))) \<and>
               sorted (map ev_timestamp es) \<and>
               image_paths label = map ev_image_path es"
    if r: "fst (createLabel uq now db data) = Inr label" for label
  proof -
    from createLabel_Inr_D [OF r p]
    obtain rows where len: "length (filter (\<lambda>e. ev_id e \<in> set ids) (events db)) = length ids"
      and rows: "create_label_events uq (events db) (label_events db) (label_seq db + 1) ids = Inr rows"
      by blast
    have dist: "distinct ids"
      using findMany_short [OF pk, of ids] len by auto
    have "accepts uq (label_events db) (new_rows (label_seq db + 1) ids)"
      using create_label_events_rejects [OF exist, of uq "label_events db" "label_seq db + 1"] rows
      by auto
    then have "no_conflict uq db (label_seq db + 1) ids"
      by (simp add: no_conflict_def keep)
    from createLabel_returns_label [OF wf parse ne dist exist this safe, of now] r
    show ?thesis by auto
  qed
  have B: "\<exists>label. fst (createLabel uq now db data) = Inr label"
    if "distinct ids" and "no_conflict uq db (label_seq db + 1) ids"
    using createLabel_returns_label [OF wf parse ne that(1) exist that(2) safe, of now] by blast
  from A B show ?thesis by blast
qed

theorem createLabel_bounds_and_order_witness:
  "store_wf demo_db \<and>
   map StringToBigInt (c_event_ids (demo_create [''3'', ''2''])) = map Some [3, 2] \<and>
   [3, 2 :: int] \<noteq> [] \<and> distinct [3, 2 :: int] \<and>
   set [3, 2] \<subseteq> ev_id ` set (events demo_db) \<and>
   no_conflict unique_event demo_db (label_seq demo_db + 1) [3, 2] \<and>
   list_all (\<lambda>e. \<bar>ev_timestamp e\<bar> \<le> 2 ^ 53) (events demo_db) \<and>
   (\<exists>label es. fst (createLabel unique_event 6000 demo_db (demo_create [''3'', ''2''])) = Inr label \<and>
      mset es = mset (filter (\<lambda>e. ev_id e \<in> set [3, 2]) (events demo_db)) \<and>
      start_time label = BigInt_toString (Min (set (map ev_timestamp es))) \<and>
      end_time label = BigInt_toString (Max (set (map ev_timestamp es))) \<and>
      sorted (map ev_timestamp es) \<and>
      image_paths label = map ev_image_path es) \<and>
   map_sum id (\<lambda>label. (start_time label, end_time label, image_paths label))
     (fst (createLabel unique_event 6000 demo_db (demo_create [''3'', ''2'']))) =
     Inr (''100'', ''200'', [None, Some ''b.jpg''])"
proof -
  have h1: "store_wf demo_db"
    by (simp add: store_wf_def demo_db_def)
  have h2: "map StringToBigInt (c_event_ids (demo_create [''3'', ''2''])) = map Some [3, 2]"
    by (simp add: demo_create_def parse_defs)
  have h3: "[3, 2 :: int] \<noteq> []" and h4: "distinct [3, 2 :: int]"
    by simp_all
  have h5: "set [3, 2] \<subseteq> ev_id ` set (events demo_db)"
    by (simp add: demo_db_def)
  have h6: "no_conflict unique_event demo_db (label_seq demo_db + 1) [3, 2]"
    by (simp add: no_conflict_def new_rows_def unique_event_def demo_db_def)
  have h7: "\<forall>e \<in> set (events demo_db). ev_id e \<in> set [3, 2] \<longrightarrow> \<bar>ev_timestamp e\<bar> \<le> 2 ^ 53"
    by (simp add: demo_db_def)
  have h7': "list_all (\<lambda>e. \<bar>ev_timestamp e\<bar> \<le> 2 ^ 53) (events demo_db)"
    by (simp add: demo_db_def)
  note t = createLabel_bounds_and_order [OF h1 h2 h3 h5 h7, of unique_event 6000]
  from t h4 h6 obtain label where l: "fst (createLabel unique_event 6000 demo_db (demo_create [''3'', ''2''])) = Inr label"
    by blast
  with t have r: "\<exists>label es. fst (createLabel unique_event 6000 demo_db (demo_create [''3'', ''2''])) = Inr label \<and>
      mset es = mset (filter (\<lambda>e. ev_id e \<in> set [3, 2]) (events demo_db)) \<and>
      start_time label = BigInt_toString (Min (set (map ev_timestamp es))) \<and>
      end_time label = BigInt_toString (Max (set (map ev_timestamp es))) \<and>
      sorted (map ev_timestamp es) \<and>
      image_paths label = map ev_image_path es"
    by blast
  have v: "map_sum id (\<lambda>label. (start_time label, end_time label, image_paths label))
     (fst (createLabel unique_event 6000 demo_db (demo_create [''3'', ''2'']))) =
     Inr (''100'', ''200'', [None, Some ''b.jpg''])"
    by (simp add: create_defs demo_defs parse_defs Number_of_BigInt_def bitLength.simps
        BigInt_toString_def natToString.simps digitChar_def Let_def)
  show ?thesis
    by (intro conjI) (rule h1 h2 h3 h4 h5 h6 h7' r v)+
qed


text \<open>
  The claim as stated is false: the label over an event of timestamp \<open>2 ^ 53 + 1\<close> starts
  at \<open>2 ^ 53\<close>; in the store of the examples the ids 2 and 2 both name an event, and the
  call returns the generic error; and under the constraint of one label per event the label
  over event 1, which has a label, is refused.
\<close>

theorem createLabel_bounds_counterexample:
  "map ev_timestamp (events far_db) = [9007199254740993] \<and>
   map_sum id start_time (fst (createLabel unique_pair 6000 far_db (demo_create [''1'']))) =
     Inr ''9007199254740992'' \<and>
   createLabel unique_pair 6000 demo_db (demo_create [''2'', ''2'']) =
     (Inl (AppError ''Failed to create label'' 500), demo_db) \<and>
   fst (createLabel unique_event 6000 demo_db (demo_create [''1''])) =
     Inl (AppError ''Label already exists for one or more events'' 400)"
  by (simp add: create_defs demo_defs far_db_def parse_defs Number_of_BigInt_def bitLength.simps
        BigInt_toString_def natToString.simps digitChar_def Let_def)

section \<open>\<^verbatim>\<open>deleteLabel\<close> and \<^verbatim>\<open>deleteLabelsBulk\<close>\<close>

text \<open>
  Claim C7. \<^verbatim>\<open>deleteLabel\<close> on an id that names no label fails with the not-found
  error (status 404) and leaves the store as it was. \<^verbatim>\<open>deleteLabelsBulk\<close> never fails: on
  any list of ids, naming labels or not, it removes the labels whose id is in the list, with
  their associations, and nothing else.
\<close>

theorem deleteLabel_missing_and_bulk:
  "(lid \<notin> lb_id ` set (labels db) \<longrightarrow>
      deleteLabel db lid = (Inl (AppError ''Label not found'' 404), db)) \<and>
   fst (deleteLabelsBulk db labelIds) = Inr () \<and>
   labels (snd (deleteLabelsBulk db labelIds)) = filter (\<lambda>l. lb_id l \<notin> set labelIds) (labels db) \<and>
   label_events (snd (deleteLabelsBulk db labelIds)) =
     filter (\<lambda>le. le_label_id le \<notin> set labelIds) (label_events db) \<and>
   events (snd (deleteLabelsBulk db labelIds)) = events db \<and>
   devices (snd (deleteLabelsBulk db labelIds)) = devices db"
  by (simp add: deleteLabel_def label_delete_def deleteLabelsBulk_def label_deleteMany_def
      delete_labels_def)

theorem deleteLabel_missing_and_bulk_witness:
  "7 \<notin> lb_id ` set (labels demo_db) \<and>
   deleteLabel demo_db 7 = (Inl (AppError ''Label not found'' 404), demo_db) \<and>
   fst (deleteLabelsBulk demo_db [1, 7]) = Inr () \<and>
   labels (snd (deleteLabelsBulk demo_db [1, 7])) = [] \<and>
   label_events (snd (deleteLabelsBulk demo_db [1, 7])) = []"
  using deleteLabel_missing_and_bulk [of 7 demo_db "[1, 7]"]
  by (simp add: demo_db_def)

section \<open>\<^verbatim>\<open>updateLabel\<close>: what is written\<close>

lemmas update_defs = updateLabel_def updateLabel_try_def updateLabel_data_def updateLabel_upsert_def
  label_update_def event_findMany_in_def sort_by_timestamp_def included_events_def label_response_def
  pick_fields_def update_fields_def Let_def

text \<open>
  Claim C2. The claim asks that the bounds of a label are the least and the greatest
  timestamp of its events after every operation. \<^verbatim>\<open>updateLabel\<close> replaces the
  associations and writes neither bound: in the store of the examples label 1 lies over
  event 1 (timestamp 300); after its events are replaced by event 2 (timestamp 100) its
  bounds are still 300 and 300.
\<close>

theorem updateLabel_stale_bounds:
  "map (\<lambda>l. (lb_start_time l, lb_end_time l))
     (labels (snd (updateLabel unique_event demo_db 1 (demo_update (Some [''2'']) None)))) =
     [(300, 300)] \<and>
   map (\<lambda>(le, e). ev_timestamp e)
     (included_events (snd (updateLabel unique_event demo_db 1 (demo_update (Some [''2'']) None))) 1) =
     [100]"
  by (simp add: update_defs demo_defs parse_defs)

text \<open>No update writes a bound: the ids and the bounds of the stored labels are those of
  before, whatever the request.\<close>

lemma bounds_replace_first:
  "find P xs = Some r \<Longrightarrow> lb_id r' = lb_id r \<Longrightarrow> lb_start_time r' = lb_start_time r \<Longrightarrow>
   lb_end_time r' = lb_end_time r \<Longrightarrow>
   map (\<lambda>l. (lb_id l, lb_start_time l, lb_end_time l)) (replace_first P r' xs) =
   map (\<lambda>l. (lb_id l, lb_start_time l, lb_end_time l)) xs"
  by (induction xs) (auto split: if_splits)

lemma label_update_keeps_bounds:
  "map (\<lambda>l. (lb_id l, lb_start_time l, lb_end_time l)) (labels (snd (label_update uq db lid u))) =
   map (\<lambda>l. (lb_id l, lb_start_time l, lb_end_time l)) (labels db)"
proof (cases "find (\<lambda>l. lb_id l = lid) (labels db)")
  case None
  then show ?thesis by (simp add: label_update_def)
next
  case (Some row)
  define row' where "row' = row\<lparr>lb_label_type := (case lu_label_type u of None \<Rightarrow> lb_label_type row | Some t \<Rightarrow> t),
                         lb_notes := (case lu_notes u of None \<Rightarrow> lb_notes row | Some n \<Rightarrow> n),
                         song := upsert (song row) (song u),
                         ad := upsert (ad row) (ad u),
                         error := upsert (error row) (error u),
                         program := upsert (program row) (program u),
                         movie := upsert (movie row) (movie u),
                         promo := upsert (promo row) (promo u),
                         sports := upsert (sports row) (sports u)\<rparr>"
  have "map (\<lambda>l. (lb_id l, lb_start_time l, lb_end_time l))
          (replace_first (\<lambda>l. lb_id l = lid) row' (labels db)) =
        map (\<lambda>l. (lb_id l, lb_start_time l, lb_end_time l)) (labels db)"
    using Some by (rule bounds_replace_first) (simp_all add: row'_def)
  then show ?thesis
    using Some
    by (simp add: label_update_def Let_def row'_def split: option.splits sum.splits)
qed

lemma updateLabel_keeps_bounds:
  "map (\<lambda>l. (lb_id l, lb_start_time l, lb_end_time l)) (labels (snd (updateLabel uq db lid data))) =
   map (\<lambda>l. (lb_id l, lb_start_time l, lb_end_time l)) (labels db)"
proof (cases "updateLabel_data db data")
  case (Inl e)
  then show ?thesis by (simp add: updateLabel_def updateLabel_try_def)
next
  case (Inr p)
  obtain updateData paths where p: "p = (updateData, paths)" by (cases p)
  from label_update_keeps_bounds [of uq db lid updateData]
  show ?thesis
    using Inr p
    by (auto simp add: updateLabel_def updateLabel_try_def Let_def split: prod.splits sum.splits)
qed

lemma updateLabel_upsert_no_type:
  "u_label_type data = None \<Longrightarrow>
   updateLabel_upsert data =
     \<lparr>song = None, ad = None, error = None, program = None, movie = None, promo = None,
      sports = None\<rparr>"
  by (simp add: updateLabel_upsert_def)

lemma sub_records_replace_first:
  "find P xs = Some r \<Longrightarrow> sub_records_of r' = sub_records_of r \<Longrightarrow>
   map sub_records_of (replace_first P r' xs) = map sub_records_of xs"
  by (induction xs) (auto split: if_splits)

lemma label_update_no_upsert:
  assumes "sub_records_of u =
    \<lparr>song = None, ad = None, error = None, program = None, movie = None, promo = None,
     sports = None\<rparr>"
  shows "map sub_records_of (labels (snd (label_update uq db lid u))) = map sub_records_of (labels db)"
proof (cases "find (\<lambda>l. lb_id l = lid) (labels db)")
  case None
  then show ?thesis by (simp add: label_update_def)
next
  case (Some row)
  from assms have u: "song u = None" "ad u = None" "error u = None" "program u = None"
    "movie u = None" "promo u = None" "sports u = None"
    by (simp_all add: sub_records_of_def)
  show ?thesis
    using Some u
    by (auto simp add: label_update_def Let_def sub_records_replace_first sub_records_of_def
        split: option.splits sum.splits)
qed

lemma updateLabel_upsert_only_named:
  "sub_of t (updateLabel_upsert data) \<noteq> None \<Longrightarrow>
   u_label_type data = Some t \<and> sub_of t data \<noteq> None"
  by (cases t) (auto simp add: updateLabel_upsert_def Let_def split: if_splits)

text \<open>
  Claim C9. When the request of \<^verbatim>\<open>updateLabel\<close> leaves \<^verbatim>\<open>label_type\<close> out, the
  type-specific objects of every label of the store are what they were, whatever objects the
  request carries and whether the call succeeds or not. An object is upserted only when
  \<^verbatim>\<open>label_type\<close> is given and the request carries the object of that type.
\<close>

theorem updateLabel_sub_records_frame:
  "(u_label_type data = None \<longrightarrow>
      map sub_records_of (labels (snd (updateLabel uq db lid data))) =
        map sub_records_of (labels db)) \<and>
   (sub_of t (updateLabel_upsert data) \<noteq> None \<longrightarrow>
      u_label_type data = Some t \<and> sub_of t data \<noteq> None)"
proof (rule conjI; rule impI)
  assume nt: "u_label_type data = None"
  show "map sub_records_of (labels (snd (updateLabel uq db lid data))) =
      map sub_records_of (labels db)"
  proof (cases "updateLabel_data db data")
    case (Inl e)
    then show ?thesis by (simp add: updateLabel_def updateLabel_try_def)
  next
    case (Inr p)
    obtain updateData paths where p: "p = (updateData, paths)" by (cases p)
    have "sub_records_of updateData =
        \<lparr>song = None, ad = None, error = None, program = None, movie = None, promo = None,
         sports = None\<rparr>"
      using Inr p nt
      by (auto simp add: updateLabel_data_def updateLabel_upsert_no_type sub_records_of_def Let_def
          split: option.splits sum.splits if_splits)
    from label_update_no_upsert [OF this, of uq db lid]
    show ?thesis
      using Inr p
      by (auto simp add: updateLabel_def updateLabel_try_def Let_def split: prod.splits sum.splits)
  qed
next
  assume "sub_of t (updateLabel_upsert data) \<noteq> None"
  then show "u_label_type data = Some t \<and> sub_of t data \<noteq> None"
    by (rule updateLabel_upsert_only_named)
qed

theorem updateLabel_sub_records_frame_witness:
  "u_label_type (demo_update None None) = None \<and>
   sports (demo_update None None) \<noteq> None \<and>
   map sub_records_of (labels (snd (updateLabel unique_event demo_db 1 (demo_update None None)))) =
     map sub_records_of (labels demo_db) \<and>
   sub_of Sports (updateLabel_upsert (demo_update None (Some Sports))) \<noteq> None \<and>
   u_label_type (demo_update None (Some Sports)) = Some Sports \<and>
   sub_of Sports (demo_update None (Some Sports)) \<noteq> None"
  using updateLabel_sub_records_frame [of "demo_update None None" unique_event demo_db 1 Sports]
    updateLabel_sub_records_frame [of "demo_update None (Some Sports)" unique_event demo_db 1 Sports]
  by (simp add: demo_update_def updateLabel_upsert_def pick_fields_def)

lemma updateLabel_Inr_D:
  "fst (updateLabel uq db lid data) = Inr label \<Longrightarrow> u_event_ids data = Some ss \<Longrightarrow>
   parse_event_ids ss = Inr ids \<Longrightarrow>
   length (filter (\<lambda>e. ev_id e \<in> set ids) (events db)) = length ids \<and>
   find (\<lambda>l. lb_id l = lid) (labels db) \<noteq> None \<and>
   (\<exists>rows. create_label_events uq (events db)
             (filter (\<lambda>le. le_label_id le \<noteq> lid) (label_events db)) lid ids = Inr rows)"
  by (auto simp add: updateLabel_def updateLabel_try_def updateLabel_data_def label_update_def
      event_findMany_in_def Let_def split: sum.splits prod.splits if_splits option.splits)

lemma updateLabel_returns_label:
  assumes pk: "distinct (map ev_id (events db))"
    and label: "lid \<in> lb_id ` set (labels db)"
    and given: "u_event_ids data = Some ss"
    and parse: "map StringToBigInt ss = map Some ids"
    and dist: "distinct ids"
    and exist: "set ids \<subseteq> ev_id ` set (events db)"
    and acc: "no_conflict uq db lid ids"
  shows "\<exists>label. fst (updateLabel uq db lid data) = Inr label \<and>
           mset (map le_event_id
                  (filter (\<lambda>le. le_label_id le = lid)
                     (label_events (snd (updateLabel uq db lid data))))) = mset ids \<and>
           filter (\<lambda>le. le_label_id le \<noteq> lid) (label_events (snd (updateLabel uq db lid data))) =
             filter (\<lambda>le. le_label_id le \<noteq> lid) (label_events db) \<and>
           mset (map StringToBigInt (event_ids label)) = mset (map StringToBigInt ss)"
proof -
  define evs where "evs = filter (\<lambda>e. ev_id e \<in> set ids) (events db)"
  define kept where "kept = filter (\<lambda>le. le_label_id le \<noteq> lid) (label_events db)"
  have p: "parse_event_ids ss = Inr ids"
    using parse by (simp add: parse_event_ids_iff)
  have len: "length evs = length ids"
    unfolding evs_def using pk dist exist by (rule findMany_length)
  define s where "s = updateLabel_upsert data"
  define updateData where "updateData =
    \<lparr>song = song s, ad = ad s, error = error s, program = program s, movie = movie s,
     promo = promo s, sports = sports s,
     lu_label_type = u_label_type data, lu_notes = u_notes data, lu_events = Some ids\<rparr>"
  define paths where "paths = map ev_image_path (sort_by_timestamp ev_timestamp evs)"
  have d: "updateLabel_data db data = Inr (updateData, paths)"
    using len
    by (simp add: updateLabel_data_def given p event_findMany_in_def evs_def [symmetric]
        s_def updateData_def paths_def Let_def)
  obtain row where row: "find (\<lambda>l. lb_id l = lid) (labels db) = Some row" "lb_id row = lid"
    using find_label [OF label] by blast
  have cr: "create_label_events uq (events db) kept lid ids = Inr (kept @ new_rows lid ids)"
    using exist acc by (simp add: create_label_events_accepts no_conflict_def kept_def)
  obtain row' db' where upd: "label_update uq db lid updateData = (Inr row', db')"
    and id': "lb_id row' = lid" and ev': "events db' = events db"
    and le': "label_events db' = kept @ new_rows lid ids"
    using row cr
    by (simp add: label_update_def updateData_def kept_def [symmetric] Let_def)
  have k: "filter (\<lambda>le. le_label_id le = lid) kept = []"
    by (simp add: kept_def)
  define les where "les = included_events db' lid"
  have les_eq: "les =
      concat (map (\<lambda>le. map (\<lambda>e. (le, e)) (filter (\<lambda>e. ev_id e = le_event_id le) (events db)))
        (new_rows lid ids))"
    unfolding les_def using k ev' le' by (rule included_events_new_rows)
  have res: "updateLabel uq db lid data = (Inr (label_response row' les paths), db')"
    by (simp add: updateLabel_def updateLabel_try_def d upd given id' les_def)
  have ids: "map (\<lambda>(le, e). le_event_id le) les = ids"
    unfolding les_eq using pk exist by (rule joined_new_rows_ids)
  have "event_ids (label_response row' les paths) = map BigInt_toString (map (\<lambda>(le, e). le_event_id le) les)"
    by (simp add: label_response_def case_prod_unfold comp_def)
  then have "map StringToBigInt (event_ids (label_response row' les paths)) = map Some ids"
    by (simp add: ids comp_def StringToBigInt_toString)
  then have e: "map StringToBigInt (event_ids (label_response row' les paths)) = map StringToBigInt ss"
    by (simp add: parse)
  have a: "map le_event_id (filter (\<lambda>le. le_label_id le = lid) (label_events db')) = ids"
    by (simp add: le' k new_rows_def comp_def)
  have b: "filter (\<lambda>le. le_label_id le \<noteq> lid) (label_events db') = kept"
    by (simp add: le' new_rows_def kept_def)
  note e' = arg_cong [OF e, of mset] and a' = arg_cong [OF a, of mset]
  show ?thesis
    using e' a' b by (simp add: res kept_def)
qed

text \<open>
  Claim C4, amended. The claim as stated fails: when an id is given twice, or the store
  refuses a row, the call fails and the associations stay as they were. For a call that
  supplies ids of existing events: when it succeeds, the events associated with the label
  afterwards are exactly the supplied ones, the associations of the other labels are
  unchanged, and the \<^verbatim>\<open>event_ids\<close> of the response denote the supplied ids; and it
  succeeds when the label exists, the ids are pairwise distinct and the store accepts the
  rows.
\<close>

theorem updateLabel_replaces_events:
  assumes pk: "distinct (map ev_id (events db))"
    and given: "u_event_ids data = Some ss"
    and parse: "map StringToBigInt ss = map Some ids"
    and exist: "set ids \<subseteq> ev_id ` set (events db)"
  shows "(\<forall>label. fst (updateLabel uq db lid data) = Inr label \<longrightarrow>
           mset (map le_event_id
                  (filter (\<lambda>le. le_label_id le = lid)
                     (label_events (snd (updateLabel uq db lid data))))) = mset ids \<and>
           filter (\<lambda>le. le_label_id le \<noteq> lid) (label_events (snd (updateLabel uq db lid data))) =
             filter (\<lambda>le. le_label_id le \<noteq> lid) (label_events db) \<and>
           mset (map StringToBigInt (event_ids label)) = mset (map StringToBigInt ss)) \<and>
         (lid \<in> lb_id ` set (labels db) \<and> distinct ids \<and> no_conflict uq db lid ids \<longrightarrow>
            (\<exists>label. fst (updateLabel uq db lid data) = Inr label))"
proof -
  have p: "parse_event_ids ss = Inr ids"
    using parse by (simp add: parse_event_ids_iff)
  have A: "mset (map le_event_id
                  (filter (\<lambda>le. le_label_id le = lid)
                     (label_events (snd (updateLabel uq db lid data))))) = mset ids \<and>
           filter (\<lambda>le. le_label_id le \<noteq> lid) (label_events (snd (updateLabel uq db lid data))) =
             filter (\<lambda>le. le_label_id le \<noteq> lid) (label_events db) \<and>
           mset (map StringToBigInt (event_ids label)) = mset (map StringToBigInt ss)"
    if r: "fst (updateLabel uq db lid data) = Inr label" for label
  proof -
    from updateLabel_Inr_D [OF r given p]
    obtain rows where len: "length (filter (\<lambda>e. ev_id e \<in> set ids) (events db)) = length ids"
      and found: "find (\<lambda>l. lb_id l = lid) (labels db) \<noteq> None"
      and rows: "create_label_events uq (events db)
             (filter (\<lambda>le. le_label_id le \<noteq> lid) (label_events db)) lid ids = Inr rows"
      by blast
    have dist: "distinct ids"
      using findMany_short [OF pk, of ids] len by auto
    have label: "lid \<in> lb_id ` set (labels db)"
      using found by (auto simp add: find_None_iff)
    have "accepts uq (filter (\<lambda>le. le_label_id le \<noteq> lid) (label_events db)) (new_rows lid ids)"
      using create_label_events_rejects
          [OF exist, of uq "filter (\<lambda>le. le_label_id le \<noteq> lid) (label_events db)" lid] rows
      by auto
    then have "no_conflict uq db lid ids"
      by (simp add: no_conflict_def)
    from updateLabel_returns_label [OF pk label given parse dist exist this] r
    show ?thesis by auto
  qed
  have B: "\<exists>label. fst (updateLabel uq db lid data) = Inr label"
    if "lid \<in> lb_id ` set (labels db)" and "distinct ids" and "no_conflict uq db lid ids"
    using updateLabel_returns_label [OF pk that(1) given parse that(2) exist that(3)] by blast
  from A B show ?thesis by blast
qed

theorem updateLabel_replaces_events_witness:
  "distinct (map ev_id (events demo_db)) \<and>
   1 \<in> lb_id ` set (labels demo_db) \<and>
   u_event_ids (demo_update (Some [''3'', ''2'']) None) = Some [''3'', ''2''] \<and>
   map StringToBigInt [''3'', ''2''] = map Some [3, 2] \<and>
   distinct [3, 2 :: int] \<and>
   set [3, 2] \<subseteq> ev_id ` set (events demo_db) \<and>
   no_conflict unique_event demo_db 1 [3, 2] \<and>
   (\<exists>label. fst (updateLabel unique_event demo_db 1 (demo_update (Some [''3'', ''2'']) None)) = Inr label \<and>
      mset (map le_event_id
             (filter (\<lambda>le. le_label_id le = 1)
                (label_events (snd (updateLabel unique_event demo_db 1
                   (demo_update (Some [''3'', ''2'']) None)))))) = mset [3, 2] \<and>
      filter (\<lambda>le. le_label_id le \<noteq> 1)
        (label_events (snd (updateLabel unique_event demo_db 1
           (demo_update (Some [''3'', ''2'']) None)))) =
        filter (\<lambda>le. le_label_id le \<noteq> 1) (label_events demo_db) \<and>
      mset (map StringToBigInt (event_ids label)) = mset (map StringToBigInt [''3'', ''2'']))"
proof -
  have h1: "distinct (map ev_id (events demo_db))"
    and h2: "1 \<in> lb_id ` set (labels demo_db)"
    and h6: "set [3, 2] \<subseteq> ev_id ` set (events demo_db)"
    by (simp_all add: demo_db_def)
  have h3: "u_event_ids (demo_update (Some [''3'', ''2'']) None) = Some [''3'', ''2'']"
    by (simp add: demo_update_def)
  have h4: "map StringToBigInt [''3'', ''2''] = map Some [3, 2]"
    by (simp add: parse_defs)
  have h5: "distinct [3, 2 :: int]"
    by simp
  have h7: "no_conflict unique_event demo_db 1 [3, 2]"
    by (simp add: no_conflict_def new_rows_def unique_event_def demo_db_def)
  note t = updateLabel_replaces_events [OF h1 h3 h4 h6, of unique_event 1]
  from t h2 h5 h7 obtain label
    where l: "fst (updateLabel unique_event demo_db 1 (demo_update (Some [''3'', ''2'']) None)) = Inr label"
    by blast
  with t have r: "\<exists>label. fst (updateLabel unique_event demo_db 1 (demo_update (Some [''3'', ''2'']) None)) = Inr label \<and>
      mset (map le_event_id
             (filter (\<lambda>le. le_label_id le = 1)
                (label_events (snd (updateLabel unique_event demo_db 1
                   (demo_update (Some [''3'', ''2'']) None)))))) = mset [3, 2] \<and>
      filter (\<lambda>le. le_label_id le \<noteq> 1)
        (label_events (snd (updateLabel unique_event demo_db 1
           (demo_update (Some [''3'', ''2'']) None)))) =
        filter (\<lambda>le. le_label_id le \<noteq> 1) (label_events demo_db) \<and>
      mset (map StringToBigInt (event_ids label)) = mset (map StringToBigInt [''3'', ''2''])"
    by blast
  show ?thesis
    by (intro conjI) (rule h1 h2 h3 h4 h5 h6 h7 r)+
qed


text \<open>
  The claim as stated is false: in the store of the examples label 1 lies over event 1; the
  update to the events 2 and 2, which exist, fails, and the label still lies over event 1.
\<close>

theorem updateLabel_duplicate_ids_counterexample:
  "1 \<in> lb_id ` set (labels demo_db) \<and> 2 \<in> ev_id ` set (events demo_db) \<and>
   fst (updateLabel unique_pair demo_db 1 (demo_update (Some [''2'', ''2'']) None)) =
     Inl (AppError ''Failed to update label'' 500) \<and>
   map le_event_id
     (filter (\<lambda>le. le_label_id le = 1)
        (label_events (snd (updateLabel unique_pair demo_db 1 (demo_update (Some [''2'', ''2'']) None))))) =
     [1]"
  by (simp add: update_defs demo_defs parse_defs)


section \<open>The listings and the program guide\<close>

lemma some_device_on_device:
  "list_ex (\<lambda>(le, e). ev_device_id e = d) (included_events db (lb_id l)) = on_device db l d"
  by (auto simp add: included_events_def on_device_def list_ex_iff)

lemma event_where_unlabeled:
  "event_where db (unlabeled_whereClause options) e = unlabeled_filters db options e"
  by (cases "startDate options"; cases "endDate options"; cases "deviceId options"; cases "types options")
     (auto simp add: event_where_def unlabeled_whereClause_def unlabeled_filters_def in_range_def
       truthy_def list_all_iff Let_def)

lemma label_where_labels:
  "label_where db (labels_whereClause options) l = label_filters db options l"
  by (cases "startDate options"; cases "endDate options"; cases "deviceId options";
      cases "createdBy options"; cases "labelType options")
     (auto simp add: label_where_def labels_whereClause_def label_filters_def in_range_def
       truthy_def some_device_on_device Let_def)

lemma skip_take_ok:
  "1 \<le> p \<Longrightarrow> 1 \<le> l \<Longrightarrow> \<exists>ys. skip_take ((p - 1) * l) l xs = Inr ys"
proof -
  assume "1 \<le> p" and "1 \<le> l"
  then have "0 \<le> (p - 1) * l" by (intro mult_nonneg_nonneg) simp_all
  then show ?thesis by (simp add: skip_take_def)
qed

lemma ceil_div_bounds:
  fixes a b :: int
  assumes "0 < b"
  shows "(\<lceil>real_of_int a / real_of_int b\<rceil> - 1) * b < a \<and> a \<le> \<lceil>real_of_int a / real_of_int b\<rceil> * b"
proof -
  let ?c = "\<lceil>real_of_int a / real_of_int b\<rceil>"
  have b: "0 < real_of_int b" using assms by simp
  have "real_of_int ?c - 1 < real_of_int a / real_of_int b" by linarith
  then have "(real_of_int ?c - 1) * real_of_int b < real_of_int a"
    using pos_less_divide_eq [OF b] by blast
  then have "real_of_int ((?c - 1) * b) < real_of_int a" by simp
  then have 1: "(?c - 1) * b < a" by (simp only: of_int_less_iff)
  have "real_of_int a / real_of_int b \<le> real_of_int ?c" by linarith
  then have "real_of_int a \<le> real_of_int ?c * real_of_int b"
    using pos_divide_le_eq [OF b] by blast
  then have "real_of_int a \<le> real_of_int (?c * b)" by simp
  then have 2: "a \<le> ?c * b" by (simp only: of_int_le_iff)
  from 1 2 show ?thesis by simp
qed

lemma skip_take_subset: "skip_take sk tk xs = Inr ys \<Longrightarrow> set ys \<subseteq> set xs"
proof -
  assume r: "skip_take sk tk xs = Inr ys"
  have 1: "set (take n (drop m zs)) \<subseteq> set zs" for n m and zs :: "'a list"
    using set_take_subset [of n "drop m zs"] set_drop_subset [of m zs] by blast
  from r show ?thesis
    using 1 [of "nat tk" "nat sk" xs] 1 [of "nat (- tk)" "nat sk" "rev xs"]
    by (auto simp add: skip_take_def split: if_splits)
qed

lemma set_order_by: "set (order_by ord k xs) = set xs"
  by (cases ord) simp_all

lemma valid_time_seconds: "\<bar>t\<bar> \<le> 8640000000000 \<Longrightarrow> valid_time (Number_of_BigInt t * 1000)"
proof -
  assume t: "\<bar>t\<bar> \<le> 8640000000000"
  then have "\<bar>t\<bar> \<le> 2 ^ 53" by simp
  then have "Number_of_BigInt t = t" by (rule Number_of_BigInt_exact)
  with t show ?thesis by (simp add: valid_time_def abs_mult)
qed

text \<open>
  Claim C5. For \<^verbatim>\<open>getUnlabeledEvents\<close> and \<^verbatim>\<open>getLabels\<close> with a page and a limit
  of at least 1, whatever the filters: in the page returned \<^verbatim>\<open>total\<close> is the number of
  records that match the active filters, \<^verbatim>\<open>totalPages\<close> is the ceiling of
  \<^verbatim>\<open>total / limit\<close> (the least number of pages of that size that hold all the records)
  and \<^verbatim>\<open>currentPage\<close> is the page asked for. \<^verbatim>\<open>getLabels\<close> always returns a page;
  \<^verbatim>\<open>getUnlabeledEvents\<close> does when the timestamps of the events are seconds of a time a
  date can hold, which the log of the sample needs.
\<close>

theorem listing_page_metadata:
  assumes "1 \<le> page uo" and "1 \<le> limit uo" and "1 \<le> page lo" and "1 \<le> limit lo"
  shows "(\<forall>r. getUnlabeledEvents db uo = Inr r \<longrightarrow>
            (\<exists>n. total r = int (length (filter (unlabeled_filters db uo) (events db))) \<and>
               totalPages r = Num n \<and> n = \<lceil>real_of_int (total r) / real_of_int (limit uo)\<rceil> \<and>
               (n - 1) * limit uo < total r \<and> total r \<le> n * limit uo \<and>
               currentPage r = page uo)) \<and>
         (list_all (\<lambda>e. \<bar>ev_timestamp e\<bar> \<le> 8640000000000) (events db) \<longrightarrow>
            (\<exists>r. getUnlabeledEvents db uo = Inr r)) \<and>
         (\<exists>r n. getLabels db lo = Inr r \<and>
            total r = int (length (filter (label_filters db lo) (labels db))) \<and>
            totalPages r = Num n \<and> n = \<lceil>real_of_int (total r) / real_of_int (limit lo)\<rceil> \<and>
            (n - 1) * limit lo < total r \<and> total r \<le> n * limit lo \<and>
            currentPage r = page lo)"
proof -
  have wu: "event_where db (unlabeled_whereClause uo) = unlabeled_filters db uo"
    by (rule ext) (rule event_where_unlabeled)
  define matching where "matching = filter (unlabeled_filters db uo) (events db)"
  obtain ys where ys: "skip_take ((page uo - 1) * limit uo) (limit uo)
      (order_by (sort_or_desc (sort' uo)) ev_timestamp matching) = Inr ys"
    using skip_take_ok [OF assms(1,2)] by blast
  note cu = ceil_div_bounds [where b = "limit uo" and a = "int (length matching)"]
  have A: "\<exists>n. total r = int (length matching) \<and>
               totalPages r = Num n \<and> n = \<lceil>real_of_int (total r) / real_of_int (limit uo)\<rceil> \<and>
               (n - 1) * limit uo < total r \<and> total r \<le> n * limit uo \<and>
               currentPage r = page uo"
    if "getUnlabeledEvents db uo = Inr r" for r
    using that assms(2) ys cu
    by (auto simp add: getUnlabeledEvents_def getUnlabeledEvents_try_def wu Math_ceil_div_def Let_def
        matching_def [symmetric] split: if_splits)
  have B: "\<exists>r. getUnlabeledEvents db uo = Inr r"
    if ok: "list_all (\<lambda>e. \<bar>ev_timestamp e\<bar> \<le> 8640000000000) (events db)"
  proof -
    have "set (take 3 ys) \<subseteq> set (events db)"
      using skip_take_subset [OF ys] set_take_subset [of 3 ys]
      by (auto simp add: set_order_by matching_def)
    with ok have "list_all (\<lambda>e. valid_time (Number_of_BigInt (ev_timestamp e) * 1000)) (take 3 ys)"
      by (auto simp add: list_all_iff intro: valid_time_seconds)
    with ys show ?thesis
      by (simp add: getUnlabeledEvents_def getUnlabeledEvents_try_def wu Let_def
          matching_def [symmetric])
  qed
  have wl: "label_where db (labels_whereClause lo) = label_filters db lo"
    by (rule ext) (rule label_where_labels)
  obtain zs where zs: "skip_take ((page lo - 1) * limit lo) (limit lo)
      (order_by (sort_or_desc (sort' lo)) lb_created_at (filter (label_filters db lo) (labels db))) = Inr zs"
    using skip_take_ok [OF assms(3,4)] by blast
  have C: "\<exists>r n. getLabels db lo = Inr r \<and>
            total r = int (length (filter (label_filters db lo) (labels db))) \<and>
            totalPages r = Num n \<and> n = \<lceil>real_of_int (total r) / real_of_int (limit lo)\<rceil> \<and>
            (n - 1) * limit lo < total r \<and> total r \<le> n * limit lo \<and>
            currentPage r = page lo"
    using assms(4) zs
      ceil_div_bounds [where b = "limit lo" and a = "int (length (filter (label_filters db lo) (labels db)))"]
    by (simp add: getLabels_def getLabels_try_def wl Math_ceil_div_def Let_def)
  from A B C show ?thesis
    unfolding matching_def by blast
qed

lemmas demo_defs2 = demo_unlabeled_options_def demo_labels_options_def

theorem listing_page_metadata_witness:
  "1 \<le> page demo_unlabeled_options \<and> 1 \<le> limit demo_unlabeled_options \<and>
   1 \<le> page demo_labels_options \<and> 1 \<le> limit demo_labels_options \<and>
   list_all (\<lambda>e. \<bar>ev_timestamp e\<bar> \<le> 8640000000000) (events demo_db) \<and>
   (\<exists>r. getUnlabeledEvents demo_db demo_unlabeled_options = Inr r \<and>
      total r = 2 \<and> totalPages r = Num 2 \<and> currentPage r = 2) \<and>
   (\<exists>r. getLabels demo_db demo_labels_options = Inr r \<and>
      total r = 1 \<and> totalPages r = Num 1 \<and> currentPage r = 1)"
proof -
  have h: "1 \<le> page demo_unlabeled_options" "1 \<le> limit demo_unlabeled_options"
    "1 \<le> page demo_labels_options" "1 \<le> limit demo_labels_options"
    by (simp_all add: demo_defs2)
  have ok: "list_all (\<lambda>e. \<bar>ev_timestamp e\<bar> \<le> 8640000000000) (events demo_db)"
    by (simp add: demo_db_def)
  have u: "int (length (filter (unlabeled_filters demo_db demo_unlabeled_options) (events demo_db))) = 2"
    by (simp add: unlabeled_filters_def demo_defs2 demo_db_def)
  have l: "int (length (filter (label_filters demo_db demo_labels_options) (labels demo_db))) = 1"
    by (simp add: label_filters_def on_device_def demo_defs2 demo_db_def)
  have lu: "limit demo_unlabeled_options = 1" "page demo_unlabeled_options = 2"
    "limit demo_labels_options = 10" "page demo_labels_options = 1"
    by (simp_all add: demo_defs2)
  note t = listing_page_metadata [OF h, of demo_db]
  from t ok obtain r where r: "getUnlabeledEvents demo_db demo_unlabeled_options = Inr r"
    by blast
  with t have "total r = 2 \<and> totalPages r = Num 2 \<and> currentPage r = 2"
    by (auto simp add: u lu)
  with r have U: "\<exists>r. getUnlabeledEvents demo_db demo_unlabeled_options = Inr r \<and>
      total r = 2 \<and> totalPages r = Num 2 \<and> currentPage r = 2"
    by blast
  from t have L: "\<exists>r. getLabels demo_db demo_labels_options = Inr r \<and>
      total r = 1 \<and> totalPages r = Num 1 \<and> currentPage r = 1"
    by (auto simp add: l lu)
  from h ok U L show ?thesis by blast
qed

lemma startOfDay_eq: "startOfDay date = 86400000 * (date div 86400000)"
  by (simp add: startOfDay_def minus_mod_eq_mult_div)

lemma day_overlap_iff:
  assumes "lb_start_time l \<le> lb_end_time l"
  shows "list_ex (\<lambda>bw. bounds_where bw l) (the (lw_OR (programGuide_whereClause date d)))
         = overlaps_day l date"
proof -
  define k where "k = date div 86400000"
  have S: "startOfDay date div 1000 = 86400 * k"
    by (simp add: startOfDay_eq k_def)
  have E: "endOfDay date div 1000 = 86400 * k + 86399"
    by (simp add: endOfDay_def startOfDay_eq k_def)
  have ov: "overlaps_day l date \<longleftrightarrow>
      lb_start_time l \<le> 86400 * k + 86399 \<and> 86400 * k \<le> lb_end_time l"
    using assms by (auto simp add: overlaps_day_def label_interval_def utc_day_window_def k_def)
  show ?thesis
    using assms
    unfolding ov
    by (auto simp add: programGuide_whereClause_def bounds_where_def in_range_def S E Let_def)
qed

text \<open>
  Claim C6. \<^verbatim>\<open>getProgramGuideByDate\<close> fails with the not-found error (status 404) when
  no device has the given id, and the labels are not read. Otherwise, on a store whose labels
  have their start time at or before their end time, what it returns is exactly the labels
  that lie on the device and whose interval from start time to end time overlaps the UTC day
  of the date, from 00:00:00.000 to 23:59:59.999; and it returns whenever the end of that day
  is a time a date can hold.
\<close>

theorem programGuide_by_date:
  "(deviceId' \<notin> device_id ` set (devices db) \<longrightarrow>
      getProgramGuideByDate db date deviceId' srt = Inl (AppError ''Invalid device ID'' 404)) \<and>
   (deviceId' \<in> device_id ` set (devices db) \<and>
    (\<forall>l \<in> set (labels db). lb_start_time l \<le> lb_end_time l) \<longrightarrow>
      (\<forall>guide. getProgramGuideByDate db date deviceId' srt = Inr guide \<longrightarrow>
         mset guide =
           mset (map (programGuide_label db)
                  (filter (\<lambda>l. on_device db l deviceId' \<and> overlaps_day l date) (labels db)))) \<and>
      (valid_time (endOfDay date) \<longrightarrow>
         (\<exists>guide. getProgramGuideByDate db date deviceId' srt = Inr guide)))"
proof (rule conjI; rule impI)
  assume "deviceId' \<notin> device_id ` set (devices db)"
  then have "find (\<lambda>d. device_id d = deviceId') (devices db) = None"
    by (auto simp add: find_None_iff)
  then show "getProgramGuideByDate db date deviceId' srt = Inl (AppError ''Invalid device ID'' 404)"
    by (simp add: getProgramGuideByDate_def getProgramGuideByDate_try_def)
next
  assume a: "deviceId' \<in> device_id ` set (devices db) \<and>
    (\<forall>l \<in> set (labels db). lb_start_time l \<le> lb_end_time l)"
  then obtain dev where dev: "find (\<lambda>d. device_id d = deviceId') (devices db) = Some dev"
    by (cases "find (\<lambda>d. device_id d = deviceId') (devices db)") (auto simp add: find_None_iff)
  have w: "filter (label_where db (programGuide_whereClause date deviceId')) (labels db) =
      filter (\<lambda>l. on_device db l deviceId' \<and> overlaps_day l date) (labels db)"
  proof (rule filter_cong [OF refl])
    fix l assume "l \<in> set (labels db)"
    with a have "lb_start_time l \<le> lb_end_time l" by blast
    from day_overlap_iff [OF this, of date deviceId']
    show "label_where db (programGuide_whereClause date deviceId') l =
        (on_device db l deviceId' \<and> overlaps_day l date)"
      by (simp add: label_where_def programGuide_whereClause_def some_device_on_device Let_def)
  qed
  have A: "mset guide =
      mset (map (programGuide_label db)
             (filter (\<lambda>l. on_device db l deviceId' \<and> overlaps_day l date) (labels db)))"
    if "getProgramGuideByDate db date deviceId' srt = Inr guide" for guide
    using that dev
    by (cases "sort_or_desc srt")
       (auto simp add: getProgramGuideByDate_def getProgramGuideByDate_try_def w Let_def
         split: if_splits)
  have B: "\<exists>guide. getProgramGuideByDate db date deviceId' srt = Inr guide"
    if "valid_time (endOfDay date)"
    using that dev
    by (simp add: getProgramGuideByDate_def getProgramGuideByDate_try_def Let_def)
  from A B show
    "(\<forall>guide. getProgramGuideByDate db date deviceId' srt = Inr guide \<longrightarrow>
         mset guide =
           mset (map (programGuide_label db)
                  (filter (\<lambda>l. on_device db l deviceId' \<and> overlaps_day l date) (labels db)))) \<and>
      (valid_time (endOfDay date) \<longrightarrow>
         (\<exists>guide. getProgramGuideByDate db date deviceId' srt = Inr guide))"
    by blast
qed

theorem programGuide_by_date_witness:
  "''dev-9'' \<notin> device_id ` set (devices demo_db) \<and>
   getProgramGuideByDate demo_db 123 ''dev-9'' None = Inl (AppError ''Invalid device ID'' 404) \<and>
   ''dev-1'' \<in> device_id ` set (devices demo_db) \<and>
   list_all (\<lambda>l. lb_start_time l \<le> lb_end_time l) (labels demo_db) \<and>
   valid_time (endOfDay 123) \<and>
   (\<exists>guide. getProgramGuideByDate demo_db 123 ''dev-1'' None = Inr guide \<and>
      mset (map pg_id guide) = {#1#})"
proof -
  have d9: "''dev-9'' \<notin> device_id ` set (devices demo_db)"
    and d1: "''dev-1'' \<in> device_id ` set (devices demo_db)"
    and ord: "\<forall>l \<in> set (labels demo_db). lb_start_time l \<le> lb_end_time l"
    by (simp_all add: demo_db_def)
  have vt: "valid_time (endOfDay 123)"
    by (simp add: valid_time_def endOfDay_def startOfDay_def)
  have sel: "filter (\<lambda>l. on_device demo_db l ''dev-1'' \<and> overlaps_day l 123) (labels demo_db) =
      labels demo_db"
    by (simp add: on_device_def overlaps_day_def label_interval_def utc_day_window_def demo_db_def)
  from programGuide_by_date [of "''dev-1''" demo_db 123 None] d1 ord vt
  obtain guide where g: "getProgramGuideByDate demo_db 123 ''dev-1'' None = Inr guide"
    "mset guide = mset (map (programGuide_label demo_db) (labels demo_db))"
    unfolding sel by blast
  from g(2) have "mset (map pg_id guide) =
      mset (map pg_id (map (programGuide_label demo_db) (labels demo_db)))"
    by (metis mset_map)
  then have "mset (map pg_id guide) = {#1#}"
    by (simp add: programGuide_label_def demo_db_def Let_def)
  with g(1) d9 d1 ord vt programGuide_by_date [of "''dev-9''" demo_db 123 None]
  show ?thesis by (simp add: list_all_iff)
qed

section \<open>Invariants of the store\<close>

text \<open>Every operation keeps the bounds of the stored labels ordered, which the program
  guide relies on, and \<^verbatim>\<open>createLabel\<close> keeps the keys of the store.\<close>

lemma createLabel_data_ordered:
  "createLabel_data db data = Inr ld \<Longrightarrow> lc_start_time ld \<le> lc_end_time ld"
  apply (auto simp add: createLabel_data_def Let_def split: sum.splits if_splits)
  subgoal for ids
    by (cases "map (\<lambda>e. Number_of_BigInt (ev_timestamp e)) (event_findMany_in db ids)")
       (auto simp add: fold_min_le_fold_max)
  done

lemma bounds_ordered_replace_first:
  "list_all P xs \<Longrightarrow> P y \<Longrightarrow> list_all P (replace_first Q y xs)"
  by (induction xs) auto

lemma createLabel_bounds_ordered:
  "bounds_ordered db \<Longrightarrow> bounds_ordered (snd (createLabel uq now db data))"
  by (auto simp add: bounds_ordered_def createLabel_def createLabel_try_def label_create_def Let_def
      dest: createLabel_data_ordered split: sum.splits prod.splits)

lemma updateLabel_bounds_ordered:
  assumes "bounds_ordered db"
  shows "bounds_ordered (snd (updateLabel uq db lid data))"
proof -
  have "bounds_ordered (snd (label_update uq db lid u))" for u
  proof (cases "find (\<lambda>l. lb_id l = lid) (labels db)")
    case None
    then show ?thesis using assms by (simp add: label_update_def)
  next
    case (Some row)
    then have "row \<in> set (labels db)" by (auto simp add: find_Some_iff)
    with assms have "lb_start_time row \<le> lb_end_time row"
      by (simp add: bounds_ordered_def list_all_iff)
    with Some assms show ?thesis
      by (auto simp add: label_update_def bounds_ordered_def Let_def
          intro!: bounds_ordered_replace_first split: option.splits sum.splits)
  qed
  from this assms show ?thesis
    by (auto simp add: updateLabel_def updateLabel_try_def Let_def split: sum.splits prod.splits)
        (metis snd_conv)+
qed

lemma delete_bounds_ordered:
  "bounds_ordered db \<Longrightarrow>
   bounds_ordered (snd (deleteLabel db lid)) \<and> bounds_ordered (snd (deleteLabelsBulk db labelIds))"
  by (auto simp add: bounds_ordered_def deleteLabel_def label_delete_def deleteLabelsBulk_def
      label_deleteMany_def delete_labels_def list_all_iff)

lemma createLabel_store_wf:
  assumes "store_wf db"
  shows "store_wf (snd (createLabel uq now db data))"
proof (cases "createLabel_data db data")
  case (Inl e)
  with assms show ?thesis by (simp add: createLabel_def createLabel_try_def)
next
  case (Inr ld)
  show ?thesis
  proof (cases "create_label_events uq (events db) (label_events db) (label_seq db + 1) (lc_events_create ld)")
    case (Inl e)
    with Inr assms show ?thesis
      by (auto simp add: createLabel_def createLabel_try_def label_create_def Let_def store_wf_def
          list_all_iff)
  next
    case r: (Inr rows)
    from create_label_events_rows [OF r]
    have rows: "rows = label_events db @ new_rows (label_seq db + 1) (lc_events_create ld)" .
    have "lb_id l \<noteq> label_seq db + 1" if "l \<in> set (labels db)" for l
      using assms that by (auto simp add: store_wf_def list_all_iff)
    with Inr r assms show ?thesis
      by (auto simp add: createLabel_def createLabel_try_def label_create_def Let_def store_wf_def
          list_all_iff rows new_rows_def)
  qed
qed


end
